theory Spec2Isabelle
  imports Main "HOL-Library.Sublist" "HOL-Library.Word"
begin

unbundle bit_operations_syntax

section \<open>JavaScript strings\<close>

text \<open>
  A JavaScript string is modelled as a \<^typ>\<open>string\<close>, one \<^typ>\<open>char\<close> per code unit:
  the model has the strings whose code units are below 256, which are the characters of
  ASCII and of Latin-1. Among these \<open>toLowerCase\<close> changes the letters \<open>A\<close> to \<open>Z\<close>
  (65 to 90) and the capital letters of Latin-1 (192 to 222 without the multiplication
  sign 215): the small letter is 32 further.
\<close>

definition toLowerCase_char :: "char \<Rightarrow> char" where
  "toLowerCase_char c =
     (let n = of_char c :: nat
      in if (65 \<le> n \<and> n \<le> 90) \<or> (192 \<le> n \<and> n \<le> 222 \<and> n \<noteq> 215)
         then char_of (n + 32)
         else c)"

definition toLowerCase :: "string \<Rightarrow> string" where
  "toLowerCase s = map toLowerCase_char s"

text \<open>\<open>text.includes(needle)\<close>: the needle occurs in the text as a contiguous run.\<close>

fun str_includes :: "string \<Rightarrow> string \<Rightarrow> bool" where
  "str_includes [] needle = (needle = [])"
| "str_includes (c # cs) needle = (prefix needle (c # cs) \<or> str_includes cs needle)"

text \<open>\<open>xs.join(sep)\<close>.\<close>

fun join :: "string \<Rightarrow> string list \<Rightarrow> string" where
  "join sep [] = []"
| "join sep [x] = x"
| "join sep (x # y # ys) = x @ sep @ join sep (y # ys)"

text \<open>
  \<open>s.trim()\<close> removes white space and line terminators at both ends: below 256 these are
  space, tab, line feed, vertical tab, form feed, carriage return and the no-break
  space.
\<close>

definition is_space :: "char \<Rightarrow> bool" where
  "is_space c =
     (c \<in> set [CHR 0x20, CHR 0x09, CHR 0x0A, CHR 0x0B, CHR 0x0C, CHR 0x0D, CHR 0xA0])"

definition trim :: "string \<Rightarrow> string" where
  "trim s = rev (dropWhile is_space (rev (dropWhile is_space s)))"

text \<open>\<open>s.replace(pat, rep)\<close> with a string pattern: the first occurrence only.\<close>

fun replace_first :: "string \<Rightarrow> string \<Rightarrow> string \<Rightarrow> string" where
  "replace_first pat rep [] = (if pat = [] then rep else [])"
| "replace_first pat rep (c # cs) =
     (if prefix pat (c # cs) then rep @ drop (length pat) (c # cs)
      else c # replace_first pat rep cs)"

text \<open>
  \<open>s.indexOf(needle, fromIndex)\<close>: the first position from \<open>fromIndex\<close> on (clamped to
  the string) where the needle starts, or \<open>-1\<close>.
\<close>

fun index_scan :: "string \<Rightarrow> string \<Rightarrow> nat \<Rightarrow> int" where
  "index_scan [] needle i = (if needle = [] then int i else -1)"
| "index_scan (c # cs) needle i =
     (if prefix needle (c # cs) then int i else index_scan cs needle (Suc i))"

definition indexOf :: "string \<Rightarrow> string \<Rightarrow> int \<Rightarrow> int" where
  "indexOf s needle fromIndex =
     (let k = nat (max 0 (min fromIndex (int (length s)))) in index_scan (drop k s) needle k)"

text \<open>
  \<open>s.slice(start, end)\<close>; \<open>None\<close> is an \<open>end\<close> of \<open>undefined\<close>. Negative indices count
  from the end of the string.
\<close>

definition slice_index :: "nat \<Rightarrow> int \<Rightarrow> nat" where
  "slice_index len i = (if i < 0 then nat (max (int len + i) 0) else min (nat i) len)"

definition slice :: "string \<Rightarrow> int \<Rightarrow> int option \<Rightarrow> string" where
  "slice s start end_opt =
     (let from = slice_index (length s) start;
          to = (case end_opt of None \<Rightarrow> length s | Some e \<Rightarrow> slice_index (length s) e)
      in take (to - from) (drop from s))"

text \<open>A number in a template literal: its decimal digits.\<close>

fun show_nat :: "nat \<Rightarrow> string" where
  "show_nat n =
     (if n < 10 then [''0123456789'' ! n]
      else show_nat (n div 10) @ [''0123456789'' ! (n mod 10)])"

section \<open>Values, files and errors\<close>

text \<open>
  What \<open>JSON.parse\<close> returns. Numbers are integers here. Strings, numbers, booleans and
  \<open>null\<close> are primitive values; every array and object that \<open>JSON.parse\<close> builds is an
  object of its own.
\<close>

datatype json =
    JNull
  | JBool bool
  | JNum int
  | JStr string
  | JArr "json list"
  | JObj "(string \<times> json) list"

text \<open>
  The text of a JSON file is modelled by what \<open>JSON.parse\<close> makes of it: \<open>NotJson\<close> is a
  text on which \<open>JSON.parse\<close> throws a \<open>SyntaxError\<close>, \<open>JsonText v\<close> a text that parses to
  \<open>v\<close>, and \<open>JSON.stringify(v, null, 2)\<close> writes such a text.
\<close>

datatype json_text = NotJson | JsonText json

text \<open>
  A path of the file system: nothing there (\<open>existsSync\<close> is false), something there that
  \<open>readFileSync\<close> cannot read (it throws), or a file with its content.
\<close>

datatype 'a disk_file = Missing | Unreadable | Content 'a

text \<open>
  What is thrown: an \<open>Error\<close> of the script with its message, a \<open>TypeError\<close> of the
  language, the \<open>SyntaxError\<close> of \<open>JSON.parse\<close> and of \<open>res.json()\<close>, a failure of the
  file system, a \<open>fetch\<close> that rejects.
\<close>

datatype error = Error string | TypeError | SyntaxError | FsError | FetchFailed

definition existsSync :: "'a disk_file \<Rightarrow> bool" where
  "existsSync f = (case f of Missing \<Rightarrow> False | _ \<Rightarrow> True)"

definition readFileSync :: "'a disk_file \<Rightarrow> error + 'a" where
  "readFileSync f = (case f of Content c \<Rightarrow> Inr c | _ \<Rightarrow> Inl FsError)"

definition JSON_parse :: "json_text \<Rightarrow> error + json" where
  "JSON_parse t = (case t of NotJson \<Rightarrow> Inl SyntaxError | JsonText v \<Rightarrow> Inr v)"

definition JSON_stringify :: "json \<Rightarrow> json_text" where
  "JSON_stringify v = JsonText v"

section \<open>scripts/bookmarks.ts: credentials\<close>

text \<open>
  The sections on \<open>scripts/bookmarks.ts\<close> follow the file \<open>src/scripts/bookmarks.ts\<close>,
  function by function.
\<close>

text \<open>
  The first match of \<open>/NAME=["']?([^"'\n]+)/\<close> in the text of the environment file: its
  group 1. After \<open>NAME=\<close> and one optional quote the group takes the longest run of
  characters other than quotes and line feed, and it needs one at least; giving the
  optional quote back leaves the group at a quote, so a position fails when the run is
  empty and the search goes on at the next position.
\<close>

definition env_value_char :: "char \<Rightarrow> bool" where
  "env_value_char c = (c \<noteq> CHR 0x22 \<and> c \<noteq> CHR 0x27 \<and> c \<noteq> CHR 0x0A)"

fun match_assignment :: "string \<Rightarrow> string \<Rightarrow> string option" where
  "match_assignment name [] = None"
| "match_assignment name (c # cs) =
     (if prefix (name @ ''='') (c # cs) then
        (let rest = drop (length name + 1) (c # cs);
             unquoted = (case rest of
                           [] \<Rightarrow> rest
                         | q # r \<Rightarrow> if q = CHR 0x22 \<or> q = CHR 0x27 then r else rest);
             group1 = takeWhile env_value_char unquoted
         in if group1 \<noteq> [] then Some group1 else match_assignment name cs)
      else match_assignment name cs)"

text \<open>
  \<open>process.env\<close> with the two variables the script reads, and the file
  \<open>~/.config/env/global.env\<close>.
\<close>

record environment =
  X_OAUTH2_ACCESS_TOKEN :: "string option"
  X_USER_ID :: "string option"
  global_env :: "string disk_file"

text \<open>The value of a variable is used when it is truthy: defined and not empty.\<close>

definition truthy :: "string option \<Rightarrow> bool" where
  "truthy v = (case v of None \<Rightarrow> False | Some s \<Rightarrow> s \<noteq> [])"

definition from_env_file :: "string \<Rightarrow> string disk_file \<Rightarrow> string option" where
  "from_env_file name f =
     (case readFileSync f of
        Inl e \<Rightarrow> None
      | Inr envFile \<Rightarrow>
          (case match_assignment name envFile of
             Some group1 \<Rightarrow> Some (trim group1)
           | None \<Rightarrow> None))"

definition getOAuth2Token :: "environment \<Rightarrow> string option" where
  "getOAuth2Token env =
     (if truthy (X_OAUTH2_ACCESS_TOKEN env) then X_OAUTH2_ACCESS_TOKEN env
      else from_env_file ''X_OAUTH2_ACCESS_TOKEN'' (global_env env))"

definition getUserId :: "environment \<Rightarrow> string option" where
  "getUserId env =
     (if truthy (X_USER_ID env) then X_USER_ID env
      else from_env_file ''X_USER_ID'' (global_env env))"

section \<open>scripts/bookmarks.ts: the bookmarks API\<close>

text \<open>
  A \<open>fetch\<close> sends a request and resolves to a response, or rejects. A response has its
  status, its text (\<open>res.text()\<close>) and what \<open>res.json()\<close> resolves to at the type the
  script declares for it; \<open>None\<close> is a body on which \<open>res.json()\<close> rejects.
\<close>

record request =
  url :: string
  authorization :: string

record 'a response =
  status :: nat
  body_text :: string
  body_json :: "'a option"

definition ok :: "'a response \<Rightarrow> bool" where
  "ok res = (200 \<le> status res \<and> status res \<le> 299)"

record bookmark =
  bm_id :: string
  bm_text :: string
  created_at :: string

text \<open>
  The two endpoints: the user lookup answers with \<open>json.data.id\<close>, the bookmarks listing
  with \<open>json.data\<close>, which may be absent. Each function returns the requests it sent
  with its result.
\<close>

type_synonym users_endpoint = "request \<Rightarrow> error + string response"
type_synonym bookmarks_endpoint = "request \<Rightarrow> error + bookmark list option response"

definition lookup_url :: string where
  "lookup_url = ''https://api.x.com/2/users/by/username/frankdegods?user.fields=id''"

definition lookupUserId :: "users_endpoint \<Rightarrow> string \<Rightarrow> request list \<times> (error + string)" where
  "lookupUserId fetch token =
     (let req = \<lparr>url = lookup_url, authorization = ''Bearer '' @ token\<rparr> in
      ([req],
       case fetch req of
         Inl e \<Rightarrow> Inl e
       | Inr res \<Rightarrow>
           if \<not> ok res
           then Inl (Error (''User lookup failed: '' @ show_nat (status res) @ '' '' @ body_text res))
           else (case body_json res of
                   None \<Rightarrow> Inl SyntaxError
                 | Some data_id \<Rightarrow> Inr data_id)))"

text \<open>
  \<open>params\<close> is \<open>new URLSearchParams({max_results: "100", "tweet.fields": "created_at,text"})\<close>,
  which a template literal writes as below (the comma is percent-encoded).
\<close>

definition bookmarks_url :: "string \<Rightarrow> string" where
  "bookmarks_url userId =
     ''https://api.x.com/2/users/'' @ userId @
     ''/bookmarks?max_results=100&tweet.fields=created_at%2Ctext''"

definition auth_failed_message :: "nat \<Rightarrow> string" where
  "auth_failed_message st =
     ''Auth failed ('' @ show_nat st @ ''). Your OAuth2 token may be expired.'' @ [CHR 0x0A] @
     ''Run: bun run scripts/auth/get-bookmark-token.ts to refresh.''"

definition fetchBookmarks ::
  "bookmarks_endpoint \<Rightarrow> string \<Rightarrow> string \<Rightarrow> request list \<times> (error + bookmark list)" where
  "fetchBookmarks fetch token userId =
     (let req = \<lparr>url = bookmarks_url userId, authorization = ''Bearer '' @ token\<rparr> in
      ([req],
       case fetch req of
         Inl e \<Rightarrow> Inl e
       | Inr res \<Rightarrow>
           if \<not> ok res then
             (let body = body_text res in
              if status res = 401 then Inl (Error (auth_failed_message (status res)))
              else Inl (Error (''Bookmarks API error: '' @ show_nat (status res) @ '' '' @ body)))
           else (case body_json res of
                   None \<Rightarrow> Inl SyntaxError
                 | Some None \<Rightarrow> Inr []
                 | Some (Some data) \<Rightarrow> Inr data)))"

section \<open>scripts/bookmarks.ts: the project-keyword table\<close>

record ProjectKeywords =
  project :: string
  pk_keywords :: "string list"

definition defaults :: "ProjectKeywords list" where
  "defaults =
     [\<lparr>project = ''BNKR/Bankr'',
       pk_keywords = [''bankr'', ''bnkr'', ''clanker'', ''token launch'', ''onchain'',
                      ''launchpad'', ''vesting'', ''earnings mechanism'']\<rparr>,
      \<lparr>project = ''belief-router'',
       pk_keywords = [''trade thesis'', ''belief router'', ''market thesis'',
                      ''investment thesis'', ''options'', ''perp'', ''kalshi'']\<rparr>,
      \<lparr>project = ''x-research'',
       pk_keywords = [''x api'', ''twitter api'', ''bookmarks'', ''tweet search'',
                      ''social media research'']\<rparr>,
      \<lparr>project = ''sell-radar'',
       pk_keywords = [''sell signal'', ''ladder'', ''mcap'', ''dexscreener'',
                      ''portfolio management'']\<rparr>,
      \<lparr>project = ''Anthropic'',
       pk_keywords = [''anthropic'', ''claude'', ''llm'', ''ai agent'', ''solutions architect'',
                      ''applied ai'']\<rparr>,
      \<lparr>project = ''trading'',
       pk_keywords = [''solana'', ''base'', ''memecoin'', ''fomo'', ''dex'', ''wallet'', ''defi'',
                      ''pnl'']\<rparr>]"

text \<open>
  \<open>content.match(/^## (.+)$/gm)\<close>. With the flag \<open>m\<close> a line starts and ends at a line
  terminator, and \<open>.\<close> matches no line terminator: a match is a whole line that starts
  with \<open>## \<close> and goes on for one character at least.
\<close>

definition is_line_terminator :: "char \<Rightarrow> bool" where
  "is_line_terminator c = (c = CHR 0x0A \<or> c = CHR 0x0D)"

fun split_lines :: "string \<Rightarrow> string list" where
  "split_lines [] = [[]]"
| "split_lines (c # cs) =
     (if is_line_terminator c then [] # split_lines cs
      else (case split_lines cs of
              [] \<Rightarrow> [[c]]
            | l # ls \<Rightarrow> (c # l) # ls))"

definition header_matches :: "string \<Rightarrow> string list" where
  "header_matches content =
     filter (\<lambda>l. prefix ''## '' l \<and> 3 < length l) (split_lines content)"

text \<open>
  \<open>section.match(/\b[a-z]{4,}\b/g)\<close>, scanning from the left; \<open>after_word\<close> tells whether
  the character before the position is a word character (\<open>\w\<close>). A match starts at a
  word boundary, takes the whole run of letters \<open>a\<close> to \<open>z\<close> (a shorter piece of the run
  ends between two letters, which is no boundary), needs four letters and a word
  boundary behind the run; the search goes on behind a match, and one character
  further where there is none.
\<close>

definition is_lower_az :: "char \<Rightarrow> bool" where
  "is_lower_az c = (c \<in> set ''abcdefghijklmnopqrstuvwxyz'')"

definition is_word_char :: "char \<Rightarrow> bool" where
  "is_word_char c =
     (c \<in> set ''abcdefghijklmnopqrstuvwxyzABCDEFGHIJKLMNOPQRSTUVWXYZ0123456789_'')"

function regex_words :: "bool \<Rightarrow> string \<Rightarrow> string list" where
  "regex_words after_word [] = []"
| "regex_words after_word (c # cs) =
     (if \<not> after_word \<and> 4 \<le> length (takeWhile is_lower_az (c # cs)) \<and>
         (case dropWhile is_lower_az (c # cs) of [] \<Rightarrow> True | d # _ \<Rightarrow> \<not> is_word_char d)
      then takeWhile is_lower_az (c # cs) # regex_words True (dropWhile is_lower_az (c # cs))
      else regex_words (is_word_char c) cs)"
  by pat_completeness auto
termination
proof (relation "measure (\<lambda>(b, s). length s)")
  fix after_word :: bool and c :: char and cs :: string
  assume "\<not> after_word \<and> 4 \<le> length (takeWhile is_lower_az (c # cs)) \<and>
          (case dropWhile is_lower_az (c # cs) of [] \<Rightarrow> True | d # _ \<Rightarrow> \<not> is_word_char d)"
  then have "is_lower_az c" by (auto split: if_splits)
  then show "((True, dropWhile is_lower_az (c # cs)), (after_word, c # cs))
               \<in> measure (\<lambda>(b, s). length s)"
    by (simp add: le_imp_less_Suc length_dropWhile_le)
qed auto

definition stopWords :: "string list" where
  "stopWords = [''with'', ''this'', ''that'', ''from'', ''have'', ''will'', ''been'', ''they'',
                ''their'', ''status'', ''next'', ''action'', ''last'', ''worked'']"

text \<open>\<open>[...new Set(words)]\<close>: the words in the order of their first occurrence.\<close>

definition uniq :: "'a list \<Rightarrow> 'a list" where
  "uniq xs = foldl (\<lambda>acc x. if x \<in> set acc then acc else acc @ [x]) [] xs"

text \<open>
  The words the script takes from a section: the matches of the lowercased section that
  are no stop words, the first ten of them.
\<close>

definition eligible_words :: "string \<Rightarrow> string list" where
  "eligible_words sec = filter (\<lambda>w. w \<notin> set stopWords) (regex_words False (toLowerCase sec))"

definition section_words :: "string \<Rightarrow> string list" where
  "section_words sec = take 10 (eligible_words sec)"

definition section_keywords :: "string \<Rightarrow> string list" where
  "section_keywords sec = uniq (section_words sec)"

text \<open>
  The section of a header match \<open>m\<close>: from the first place where the text of \<open>m\<close> stands
  in the document up to the next line that starts with \<open>## \<close>, or to the end.
\<close>

definition section_of :: "string \<Rightarrow> string \<Rightarrow> string" where
  "section_of content m =
     (let sectionStart = indexOf content m 0;
          nextSection = indexOf content (CHR 0x0A # ''## '') (sectionStart + 1)
      in slice content sectionStart (if -1 < nextSection then Some nextSection else None))"

definition extract_project :: "string \<Rightarrow> string \<Rightarrow> ProjectKeywords" where
  "extract_project content m =
     \<lparr>project = trim (replace_first ''## '' '''' m),
      pk_keywords = section_keywords (section_of content m)\<rparr>"

definition extractProjectKeywords :: "string disk_file \<Rightarrow> ProjectKeywords list" where
  "extractProjectKeywords f =
     (if \<not> existsSync f then defaults
      else (case readFileSync f of
              Inl e \<Rightarrow> defaults
            | Inr content \<Rightarrow>
                (let extracted = map (extract_project content) (header_matches content)
                 in if 0 < length extracted then extracted else defaults)))"

section \<open>scripts/bookmarks.ts: relevance scoring\<close>

text \<open>
  The object \<open>{ score, reason, project }\<close> that \<open>scoreRelevance\<close> returns; its field
  \<open>project\<close> is \<open>matched_project\<close> here, since \<open>project\<close> names the field of
  \<open>ProjectKeywords\<close>.
\<close>

record relevance =
  score :: nat
  reason :: string
  matched_project :: string

text \<open>\<open>keywords.filter((kw) => text.includes(kw.toLowerCase()))\<close>.\<close>

definition matched_keywords :: "string \<Rightarrow> string list \<Rightarrow> string list" where
  "matched_keywords txt kws = filter (\<lambda>kw. str_includes txt (toLowerCase kw)) kws"

text \<open>
  One turn of the loop over \<open>projects\<close>; \<open>best\<close> holds \<open>bestScore\<close>, \<open>bestReason\<close> and
  \<open>bestProject\<close>.
\<close>

definition scoreRelevance_step :: "string \<Rightarrow> relevance \<Rightarrow> ProjectKeywords \<Rightarrow> relevance" where
  "scoreRelevance_step txt best p =
     (let matched = matched_keywords txt (pk_keywords p) in
      if length matched = 0 then best
      else
        let sc = (if 3 \<le> length matched then 3 else if 1 \<le> length matched then 2 else 1) in
        if score best < sc
        then \<lparr>score = sc,
              reason = ''Matches '' @ project p @ '': '' @ join '', '' (take 3 matched),
              matched_project = project p\<rparr>
        else best)"

definition scoreRelevance :: "string \<Rightarrow> ProjectKeywords list \<Rightarrow> relevance" where
  "scoreRelevance tweetText projects =
     foldl (scoreRelevance_step (toLowerCase tweetText))
       \<lparr>score = 0, reason = '''', matched_project = ''''\<rparr> projects"

subsection \<open>The scoring rule in the words of the specification\<close>

text \<open>Score of a project with \<open>n\<close> matching keywords: 3 from three matches on, 2 for one or two, 0 for none.\<close>

definition bucket :: "nat \<Rightarrow> nat" where
  "bucket n = (if 3 \<le> n then 3 else if 1 \<le> n then 2 else 0)"

text \<open>How many keywords of the project occur, as they are written in the table, in the lowercased text.\<close>

definition verbatim_hits :: "string \<Rightarrow> ProjectKeywords \<Rightarrow> nat" where
  "verbatim_hits tweetText p =
     length (filter (\<lambda>kw. str_includes (toLowerCase tweetText) kw) (pk_keywords p))"

text \<open>How many keywords of the project occur, once lowercased themselves, in the lowercased text.\<close>

definition lowercased_hits :: "string \<Rightarrow> ProjectKeywords \<Rightarrow> nat" where
  "lowercased_hits tweetText p =
     length (filter (\<lambda>kw. str_includes (toLowerCase tweetText) (toLowerCase kw)) (pk_keywords p))"

text \<open>
  \<open>best_at sc ps r\<close>: the result \<open>r\<close> carries the greatest of the project scores \<open>sc\<close>
  over the table \<open>ps\<close> and the name of the first project of the table that reaches it;
  when no project scores above 0 the result is score 0 with the empty label.
\<close>

definition best_at :: "(ProjectKeywords \<Rightarrow> nat) \<Rightarrow> ProjectKeywords list \<Rightarrow> relevance \<Rightarrow> bool" where
  "best_at sc ps r =
     (list_all (\<lambda>p. sc p \<le> score r) ps \<and>
      (if score r = 0 then matched_project r = ''''
       else \<exists>i < length ps. sc (ps ! i) = score r \<and> matched_project r = project (ps ! i) \<and>
              list_all (\<lambda>p. sc p < score r) (take i ps)))"

section \<open>scripts/bookmarks.ts: state\<close>

text \<open>
  A \<open>Set\<close> is the list of its elements in the order they were added. Two primitive
  values are the same element when they are equal; an array or an object is the same
  element only as itself, and every one that \<open>JSON.parse\<close> builds is new.
\<close>

definition is_primitive :: "json \<Rightarrow> bool" where
  "is_primitive v = (case v of JArr xs \<Rightarrow> False | JObj kvs \<Rightarrow> False | _ \<Rightarrow> True)"

definition set_has :: "json list \<Rightarrow> json \<Rightarrow> bool" where
  "set_has s v = (is_primitive v \<and> v \<in> set s)"

definition set_add :: "json list \<Rightarrow> json \<Rightarrow> json list" where
  "set_add s v = (if set_has s v then s else s @ [v])"

definition new_Set :: "json list \<Rightarrow> json list" where
  "new_Set vs = foldl set_add [] vs"

text \<open>
  The files the script reads and writes: \<open>SEEN_FILE\<close>, \<open>ALERTS_FILE\<close> and
  \<open>ACTIVE_PROJECTS_FILE\<close>, and the paths written so far, in order. Writing can fail:
  \<open>seen_writable\<close> and \<open>alerts_writable\<close> tell whether \<open>mkdirSync(DATA_DIR)\<close> followed by
  \<open>writeFileSync\<close> of the path succeeds; where it does not (the path is a directory, or
  the file or the directory may not be written), one of the two throws and nothing is
  written.
\<close>

datatype path = SEEN_FILE | ALERTS_FILE

record disk =
  seen_file :: "json_text disk_file"
  alerts_file :: "json_text disk_file"
  projects_file :: "string disk_file"
  seen_writable :: bool
  alerts_writable :: bool
  written :: "path list"

text \<open>The body of the \<open>try\<close> of \<open>loadSeen\<close>, and \<open>loadSeen\<close> with its \<open>catch\<close>.\<close>

definition loadSeen_try :: "json_text disk_file \<Rightarrow> error + json list" where
  "loadSeen_try f =
     (if \<not> existsSync f then Inr (new_Set [])
      else (case readFileSync f of
              Inl e \<Rightarrow> Inl e
            | Inr t \<Rightarrow>
                (case JSON_parse t of
                   Inl e \<Rightarrow> Inl e
                 | Inr data \<Rightarrow> Inr (new_Set (case data of JArr xs \<Rightarrow> xs | _ \<Rightarrow> [])))))"

definition loadSeen :: "json_text disk_file \<Rightarrow> json list" where
  "loadSeen f = (case loadSeen_try f of Inl e \<Rightarrow> new_Set [] | Inr s \<Rightarrow> s)"

definition saveSeen :: "json list \<Rightarrow> disk \<Rightarrow> error + disk" where
  "saveSeen seen d =
     (if seen_writable d
      then Inr (d\<lparr>seen_file := Content (JSON_stringify (JArr seen)),
                  written := written d @ [SEEN_FILE]\<rparr>)
      else Inl FsError)"

definition loadAlerts_try :: "json_text disk_file \<Rightarrow> error + json" where
  "loadAlerts_try f =
     (if \<not> existsSync f then Inr (JArr [])
      else (case readFileSync f of
              Inl e \<Rightarrow> Inl e
            | Inr t \<Rightarrow> JSON_parse t))"

definition loadAlerts :: "json_text disk_file \<Rightarrow> json" where
  "loadAlerts f = (case loadAlerts_try f of Inl e \<Rightarrow> JArr [] | Inr a \<Rightarrow> a)"

definition saveAlerts :: "json \<Rightarrow> disk \<Rightarrow> error + disk" where
  "saveAlerts alerts d =
     (if alerts_writable d
      then Inr (d\<lparr>alerts_file := Content (JSON_stringify alerts),
                  written := written d @ [ALERTS_FILE]\<rparr>)
      else Inl FsError)"

section \<open>scripts/bookmarks.ts: main\<close>

text \<open>
  What a run starts from: the arguments \<open>process.argv.slice(2)\<close>, the environment, the
  files, the two endpoints, and the clock: \<open>clock k\<close> is what
  \<open>new Date().toISOString()\<close> gives for the alert that follows \<open>k\<close> others of the run.
\<close>

record world =
  argv :: "string list"
  env :: environment
  disk :: disk
  users_api :: users_endpoint
  bookmarks_api :: bookmarks_endpoint
  clock :: "nat \<Rightarrow> string"

text \<open>
  What a run leaves: the exit code, the files, the requests sent, the bookmarks handed
  to \<open>scoreRelevance\<close>, and what was thrown, if anything, to the \<open>catch\<close> of the script or
  past it. Console output is not part of the model.
\<close>

record outcome =
  exit_code :: nat
  disk_after :: disk
  requests :: "request list"
  scored :: "bookmark list"
  thrown :: "error option"

text \<open>
  \<open>--show\<close>. A property of \<open>null\<close> throws, a property that is not there is \<open>undefined\<close>
  (\<open>None\<close>); a repeated key of a JSON object keeps its last value.
\<close>

definition property :: "json \<Rightarrow> string \<Rightarrow> json option" where
  "property v k = (case v of JObj kvs \<Rightarrow> map_of (rev kvs) k | _ \<Rightarrow> None)"

definition js_length :: "json \<Rightarrow> error + json option" where
  "js_length v =
     (case v of
        JNull \<Rightarrow> Inl TypeError
      | JArr xs \<Rightarrow> Inr (Some (JNum (int (length xs))))
      | JStr s \<Rightarrow> Inr (Some (JNum (int (length s))))
      | _ \<Rightarrow> Inr (property v ''length''))"

text \<open>
  Printing one alert \<open>a\<close> reads properties of \<open>a\<close> and calls \<open>a.text.slice(0, 120)\<close>,
  which only a string or an array has.
\<close>

definition print_alert :: "json \<Rightarrow> error option" where
  "print_alert a =
     (case property a ''text'' of
        Some (JStr s) \<Rightarrow> None
      | Some (JArr xs) \<Rightarrow> None
      | _ \<Rightarrow> Some TypeError)"

definition show_alerts :: "json \<Rightarrow> error option" where
  "show_alerts alerts =
     (case js_length alerts of
        Inl e \<Rightarrow> Some e
      | Inr len \<Rightarrow>
          if len = Some (JNum 0) then None
          else (case alerts of
                  JArr xs \<Rightarrow> (case filter (\<lambda>a. print_alert a \<noteq> None) xs of
                                [] \<Rightarrow> None
                              | a # _ \<Rightarrow> print_alert a)
                | _ \<Rightarrow> Some TypeError))"

text \<open>The default mode: resolving the user id and fetching.\<close>

definition resolve_user :: "world \<Rightarrow> string \<Rightarrow> request list \<times> (error + string)" where
  "resolve_user w token =
     (case getUserId (env w) of
        None \<Rightarrow> lookupUserId (users_api w) token
      | Some userId \<Rightarrow>
          if userId = [] then lookupUserId (users_api w) token else ([], Inr userId))"

definition fetch_phase :: "world \<Rightarrow> string \<Rightarrow> request list \<times> (error + bookmark list)" where
  "fetch_phase w token =
     (case resolve_user w token of
        (sent, Inl e) \<Rightarrow> (sent, Inl e)
      | (sent, Inr userId) \<Rightarrow>
          (case fetchBookmarks (bookmarks_api w) token userId of
             (sent', r) \<Rightarrow> (sent @ sent', r)))"

text \<open>\<open>bookmarks.filter((b) => !seen.has(b.id))\<close>.\<close>

definition newBookmarks :: "json list \<Rightarrow> bookmark list \<Rightarrow> bookmark list" where
  "newBookmarks seen bookmarks = filter (\<lambda>b. \<not> set_has seen (JStr (bm_id b))) bookmarks"

text \<open>The alert object of a bookmark, and \<open>alerts.push\<close>, which only an array has.\<close>

definition alert_of :: "bookmark \<Rightarrow> relevance \<Rightarrow> string \<Rightarrow> json" where
  "alert_of bm r timestamp =
     JObj [(''id'', JStr (bm_id bm)),
           (''url'', JStr (''https://x.com/i/web/status/'' @ bm_id bm)),
           (''text'', JStr (bm_text bm)),
           (''relevance_score'', JNum (int (score r))),
           (''reason'', JStr (reason r)),
           (''project'', JStr (matched_project r)),
           (''timestamp'', JStr timestamp)]"

definition push :: "json \<Rightarrow> json \<Rightarrow> error + json" where
  "push alerts a = (case alerts of JArr xs \<Rightarrow> Inr (JArr (xs @ [a])) | _ \<Rightarrow> Inl TypeError)"

text \<open>
  The loop over \<open>newBookmarks\<close> with its variables; it ends with the state reached and
  with what was thrown, if anything.
\<close>

record loop_state =
  seen :: "json list"
  alerts :: json
  alertCount :: nat
  scored_so_far :: "bookmark list"

fun ingest_loop ::
  "(nat \<Rightarrow> string) \<Rightarrow> ProjectKeywords list \<Rightarrow> bookmark list \<Rightarrow> loop_state
     \<Rightarrow> loop_state \<times> error option" where
  "ingest_loop clk projects [] st = (st, None)"
| "ingest_loop clk projects (bm # bms) st =
     (let st1 = st\<lparr>seen := set_add (seen st) (JStr (bm_id bm)),
                   scored_so_far := scored_so_far st @ [bm]\<rparr>;
          r = scoreRelevance (bm_text bm) projects
      in if 2 \<le> score r then
           (case push (alerts st1) (alert_of bm r (clk (alertCount st1))) of
              Inl e \<Rightarrow> (st1, Some e)
            | Inr pushed \<Rightarrow>
                ingest_loop clk projects bms
                  (st1\<lparr>alerts := pushed, alertCount := Suc (alertCount st1)\<rparr>))
         else ingest_loop clk projects bms st1)"

text \<open>
  The script from \<open>const seen = loadSeen()\<close> on, given the fetched bookmarks. What
  \<open>saveSeen\<close> or \<open>saveAlerts\<close> throws goes to the \<open>catch\<close> of the script as every other
  error does, and the run ends with exit code 1.
\<close>

definition ingest :: "world \<Rightarrow> request list \<Rightarrow> bookmark list \<Rightarrow> outcome" where
  "ingest w sent bookmarks =
     (let seen0 = loadSeen (seen_file (disk w));
          new = newBookmarks seen0 bookmarks
      in if length new = 0
         then \<lparr>exit_code = 0, disk_after = disk w, requests = sent, scored = [], thrown = None\<rparr>
         else
           (let projects = extractProjectKeywords (projects_file (disk w));
                alerts0 = loadAlerts (alerts_file (disk w))
            in case ingest_loop (clock w) projects new
                      \<lparr>seen = seen0, alerts = alerts0, alertCount = 0, scored_so_far = []\<rparr> of
                 (st, Some e) \<Rightarrow>
                   \<lparr>exit_code = 1, disk_after = disk w, requests = sent,
                    scored = scored_so_far st, thrown = Some e\<rparr>
               | (st, None) \<Rightarrow>
                   (case saveSeen (seen st) (disk w) of
                      Inl e \<Rightarrow>
                        \<lparr>exit_code = 1, disk_after = disk w, requests = sent,
                         scored = scored_so_far st, thrown = Some e\<rparr>
                    | Inr d1 \<Rightarrow>
                        (case saveAlerts (alerts st) d1 of
                           Inl e \<Rightarrow>
                             \<lparr>exit_code = 1, disk_after = d1, requests = sent,
                              scored = scored_so_far st, thrown = Some e\<rparr>
                         | Inr d2 \<Rightarrow>
                             \<lparr>exit_code = 0, disk_after = d2, requests = sent,
                              scored = scored_so_far st, thrown = None\<rparr>))))"

text \<open>
  The script. In the modes \<open>--show\<close> and \<open>--clear\<close> nothing catches what is thrown: the
  process ends with exit code 1.
\<close>

definition main :: "world \<Rightarrow> outcome" where
  "main w =
     (if ''--show'' \<in> set (argv w) then
        (case show_alerts (loadAlerts (alerts_file (disk w))) of
           None \<Rightarrow>
             \<lparr>exit_code = 0, disk_after = disk w, requests = [], scored = [], thrown = None\<rparr>
         | Some e \<Rightarrow>
             \<lparr>exit_code = 1, disk_after = disk w, requests = [], scored = [], thrown = Some e\<rparr>)
      else if ''--clear'' \<in> set (argv w) then
        (case saveAlerts (JArr []) (disk w) of
           Inl e \<Rightarrow>
             \<lparr>exit_code = 1, disk_after = disk w, requests = [], scored = [], thrown = Some e\<rparr>
         | Inr d \<Rightarrow>
             \<lparr>exit_code = 0, disk_after = d, requests = [], scored = [], thrown = None\<rparr>)
      else
        (case getOAuth2Token (env w) of
           None \<Rightarrow>
             \<lparr>exit_code = 1, disk_after = disk w, requests = [], scored = [], thrown = None\<rparr>
         | Some token \<Rightarrow>
             if token = [] then
               \<lparr>exit_code = 1, disk_after = disk w, requests = [], scored = [], thrown = None\<rparr>
             else
               (case fetch_phase w token of
                  (sent, Inl e) \<Rightarrow>
                    \<lparr>exit_code = 1, disk_after = disk w, requests = sent, scored = [],
                     thrown = Some e\<rparr>
                | (sent, Inr bookmarks) \<Rightarrow> ingest w sent bookmarks)))"

section \<open>scripts/auth/get-bookmark-token.ts: the crypto module\<close>

text \<open>
  The authorizer is the file \<open>src/unnamed/part_001\<close>; its header gives its name as
  \<open>scripts/auth/get-bookmark-token.ts\<close>. This section models what it uses of the
  \<open>crypto\<close> module of the platform.
\<close>

text \<open>
  Bytes, and the encodings of a \<open>Buffer\<close> the script asks for. A \<open>Buffer\<close> of a string
  holds its UTF-8 bytes: one byte for a character below 128, two bytes for a character
  from 128 to 255. Base64 follows RFC 4648:
  three bytes are four groups of six bits; one or two bytes at the end are two or three
  groups, filled up with zero bits. \<open>base64\<close> writes the groups with the standard
  alphabet and pads with \<open>=\<close>; \<open>base64url\<close> writes them with the URL-safe alphabet and
  adds no padding.
\<close>

type_synonym byte = "8 word"

definition utf8_char :: "char \<Rightarrow> byte list" where
  "utf8_char c =
     (let u = of_char c :: byte
      in if u < 0x80 then [u] else [0xC0 OR drop_bit 6 u, 0x80 OR take_bit 6 u])"

definition utf8 :: "string \<Rightarrow> byte list" where
  "utf8 s = concat (map utf8_char s)"

definition base64_alphabet :: string where
  "base64_alphabet = ''ABCDEFGHIJKLMNOPQRSTUVWXYZabcdefghijklmnopqrstuvwxyz0123456789+/''"

definition base64url_alphabet :: string where
  "base64url_alphabet = ''ABCDEFGHIJKLMNOPQRSTUVWXYZabcdefghijklmnopqrstuvwxyz0123456789-_''"

text \<open>The group of six bits number \<open>k\<close> from the right of the bits \<open>w\<close>, as a character.\<close>

definition sextet :: "string \<Rightarrow> 32 word \<Rightarrow> nat \<Rightarrow> char" where
  "sextet alphabet w k = alphabet ! unat (take_bit 6 (drop_bit (6 * k) w))"

fun base64_groups :: "string \<Rightarrow> string \<Rightarrow> byte list \<Rightarrow> string" where
  "base64_groups alphabet pad (a # b # c # bytes) =
     (let w = push_bit 16 (ucast a) OR push_bit 8 (ucast b) OR ucast c
      in [sextet alphabet w 3, sextet alphabet w 2, sextet alphabet w 1, sextet alphabet w 0])
     @ base64_groups alphabet pad bytes"
| "base64_groups alphabet pad [a, b] =
     (let w = push_bit 2 (push_bit 8 (ucast a) OR ucast b)
      in [sextet alphabet w 2, sextet alphabet w 1, sextet alphabet w 0]) @ pad"
| "base64_groups alphabet pad [a] =
     (let w = push_bit 4 (ucast a)
      in [sextet alphabet w 1, sextet alphabet w 0]) @ pad @ pad"
| "base64_groups alphabet pad [] = []"

definition toString_base64 :: "byte list \<Rightarrow> string" where
  "toString_base64 bytes = base64_groups base64_alphabet ''='' bytes"

definition toString_base64url :: "byte list \<Rightarrow> string" where
  "toString_base64url bytes = base64_groups base64url_alphabet '''' bytes"

definition toString_hex :: "byte list \<Rightarrow> string" where
  "toString_hex bytes =
     concat (map (\<lambda>b. [''0123456789abcdef'' ! unat (drop_bit 4 b),
                        ''0123456789abcdef'' ! unat (take_bit 4 b)]) bytes)"

text \<open>
  SHA-256 as FIPS 180-4 defines it, on 32-bit words: the message is padded with the bit
  1, zero bits and its length in bits as 64 bits, to a multiple of 64 bytes; each block
  of 64 bytes is expanded to 64 words and run through 64 rounds on eight working
  variables, which are added to the hash value.
\<close>

type_synonym w32 = "32 word"

definition rotr :: "nat \<Rightarrow> w32 \<Rightarrow> w32" where
  "rotr n x = drop_bit n x OR push_bit (32 - n) x"

definition Ch :: "w32 \<Rightarrow> w32 \<Rightarrow> w32 \<Rightarrow> w32" where
  "Ch x y z = (x AND y) XOR (NOT x AND z)"

definition Maj :: "w32 \<Rightarrow> w32 \<Rightarrow> w32 \<Rightarrow> w32" where
  "Maj x y z = (x AND y) XOR (x AND z) XOR (y AND z)"

definition Sigma0 :: "w32 \<Rightarrow> w32" where
  "Sigma0 x = rotr 2 x XOR rotr 13 x XOR rotr 22 x"

definition Sigma1 :: "w32 \<Rightarrow> w32" where
  "Sigma1 x = rotr 6 x XOR rotr 11 x XOR rotr 25 x"

definition sigma0 :: "w32 \<Rightarrow> w32" where
  "sigma0 x = rotr 7 x XOR rotr 18 x XOR drop_bit 3 x"

definition sigma1 :: "w32 \<Rightarrow> w32" where
  "sigma1 x = rotr 17 x XOR rotr 19 x XOR drop_bit 10 x"

text \<open>The round constants, eight to a row.\<close>

definition K256 :: "w32 list" where
  "K256 = concat
     [[0x428a2f98, 0x71374491, 0xb5c0fbcf, 0xe9b5dba5, 0x3956c25b, 0x59f111f1, 0x923f82a4, 0xab1c5ed5],
      [0xd807aa98, 0x12835b01, 0x243185be, 0x550c7dc3, 0x72be5d74, 0x80deb1fe, 0x9bdc06a7, 0xc19bf174],
      [0xe49b69c1, 0xefbe4786, 0x0fc19dc6, 0x240ca1cc, 0x2de92c6f, 0x4a7484aa, 0x5cb0a9dc, 0x76f988da],
      [0x983e5152, 0xa831c66d, 0xb00327c8, 0xbf597fc7, 0xc6e00bf3, 0xd5a79147, 0x06ca6351, 0x14292967],
      [0x27b70a85, 0x2e1b2138, 0x4d2c6dfc, 0x53380d13, 0x650a7354, 0x766a0abb, 0x81c2c92e, 0x92722c85],
      [0xa2bfe8a1, 0xa81a664b, 0xc24b8b70, 0xc76c51a3, 0xd192e819, 0xd6990624, 0xf40e3585, 0x106aa070],
      [0x19a4c116, 0x1e376c08, 0x2748774c, 0x34b0bcb5, 0x391c0cb3, 0x4ed8aa4a, 0x5b9cca4f, 0x682e6ff3],
      [0x748f82ee, 0x78a5636f, 0x84c87814, 0x8cc70208, 0x90befffa, 0xa4506ceb, 0xbef9a3f7, 0xc67178f2]]"

definition H256 :: "w32 list" where
  "H256 = [0x6a09e667, 0xbb67ae85, 0x3c6ef372, 0xa54ff53a,
           0x510e527f, 0x9b05688c, 0x1f83d9ab, 0x5be0cd19]"

definition be_word :: "byte list \<Rightarrow> w32" where
  "be_word bs = foldl (\<lambda>acc b. push_bit 8 acc OR ucast b) 0 bs"

definition be_bytes :: "nat \<Rightarrow> 'a::len word \<Rightarrow> byte list" where
  "be_bytes k w = map (\<lambda>i. ucast (drop_bit (8 * i) w)) (rev [0..<k])"

fun words_of :: "byte list \<Rightarrow> w32 list" where
  "words_of (a # b # c # d # bs) = be_word [a, b, c, d] # words_of bs"
| "words_of _ = []"

primrec expand :: "nat \<Rightarrow> w32 list \<Rightarrow> w32 list" where
  "expand 0 w = w"
| "expand (Suc k) w =
     expand k (w @ [sigma1 (w ! (length w - 2)) + w ! (length w - 7) +
                    sigma0 (w ! (length w - 15)) + w ! (length w - 16)])"

definition sha_round :: "w32 list \<Rightarrow> w32 \<times> w32 \<Rightarrow> w32 list" where
  "sha_round v kw =
     (case v of
        [a, b, c, d, e, f, g, h] \<Rightarrow>
          (let T1 = h + Sigma1 e + Ch e f g + fst kw + snd kw;
               T2 = Sigma0 a + Maj a b c
           in [T1 + T2, a, b, c, d + T1, e, f, g])
      | _ \<Rightarrow> v)"

definition compress :: "w32 list \<Rightarrow> byte list \<Rightarrow> w32 list" where
  "compress h block = map2 (+) h (foldl sha_round h (zip K256 (expand 48 (words_of block))))"

definition sha_pad :: "byte list \<Rightarrow> byte list" where
  "sha_pad m =
     m @ [0x80] @ replicate ((119 - length m mod 64) mod 64) 0 @
     be_bytes 8 (of_nat (8 * length m) :: 64 word)"

fun blocks :: "nat \<Rightarrow> byte list \<Rightarrow> byte list list" where
  "blocks 0 bs = []"
| "blocks (Suc k) bs = take 64 bs # blocks k (drop 64 bs)"

definition sha256 :: "byte list \<Rightarrow> byte list" where
  "sha256 m =
     concat (map (be_bytes 4)
       (foldl compress H256 (blocks (length (sha_pad m) div 64) (sha_pad m))))"

text \<open>
  \<open>crypto.createHash(algorithm).update(string).digest(encoding)\<close>: a hash object holds
  the name of its algorithm and the bytes fed to it. Of the algorithms and encodings of
  the platform, the model has the ones the script names.
\<close>

datatype hash = Hash string "byte list"

definition createHash :: "string \<Rightarrow> hash" where
  "createHash algorithm = Hash algorithm []"

definition update :: "hash \<Rightarrow> string \<Rightarrow> hash" where
  "update h s = (case h of Hash algorithm fed \<Rightarrow> Hash algorithm (fed @ utf8 s))"

definition buffer_toString :: "byte list \<Rightarrow> string \<Rightarrow> string" where
  "buffer_toString bytes encoding =
     (if encoding = ''base64url'' then toString_base64url bytes
      else if encoding = ''base64'' then toString_base64 bytes
      else if encoding = ''hex'' then toString_hex bytes
      else [])"

definition digest :: "hash \<Rightarrow> string \<Rightarrow> string" where
  "digest h encoding =
     (case h of Hash algorithm fed \<Rightarrow>
        buffer_toString (if algorithm = ''sha256'' then sha256 fed else []) encoding)"

section \<open>scripts/auth/get-bookmark-token.ts: the PKCE pair and the callback\<close>

text \<open>\<open>random32\<close> is what \<open>crypto.randomBytes(32)\<close> returns.\<close>

definition generateCodeVerifier :: "byte list \<Rightarrow> string" where
  "generateCodeVerifier random32 = buffer_toString random32 ''base64url''"

definition generateCodeChallenge :: "string \<Rightarrow> string" where
  "generateCodeChallenge verifier = digest (update (createHash ''sha256'') verifier) ''base64url''"

text \<open>
  URL-safe base64 without padding, in the words of RFC 4648: the standard encoding with
  \<open>-\<close> for \<open>+\<close> and \<open>_\<close> for \<open>/\<close>, the padding left out.
\<close>

definition url_safe :: "char \<Rightarrow> char" where
  "url_safe c = (if c = CHR ''+'' then CHR ''-'' else if c = CHR ''/'' then CHR ''_'' else c)"

definition base64url_no_padding :: "byte list \<Rightarrow> string" where
  "base64url_no_padding bytes =
     filter (\<lambda>c. c \<noteq> CHR ''='') (map url_safe (toString_base64 bytes))"

text \<open>
  The constants of the script, and the values it draws when it starts: the code
  verifier and the state nonce.
\<close>

definition REDIRECT_URI :: string where
  "REDIRECT_URI = ''http://localhost:3000/callback''"

record authorizer =
  CLIENT_ID :: string
  CLIENT_SECRET :: "string option"
  codeVerifier :: string
  state :: string

text \<open>\<open>nonce16\<close> is what \<open>crypto.randomBytes(16)\<close> returns.\<close>

definition start :: "string \<Rightarrow> string option \<Rightarrow> byte list \<Rightarrow> byte list \<Rightarrow> authorizer" where
  "start client_id client_secret random32 nonce16 =
     \<lparr>CLIENT_ID = client_id, CLIENT_SECRET = client_secret,
      codeVerifier = generateCodeVerifier random32,
      state = buffer_toString nonce16 ''hex''\<rparr>"

text \<open>
  The request of the token exchange and the answer \<open>tokenRes.json()\<close> resolves to. In a
  template literal a value of \<open>undefined\<close> reads \<open>undefined\<close>.
\<close>

record token_request =
  token_url :: string
  http_method :: string
  headers :: "(string \<times> string) list"
  form :: "(string \<times> string) list"

record tokens =
  error_field :: "string option"
  access_token :: string
  refresh_token :: "string option"
  expires_in :: nat

definition template :: "string option \<Rightarrow> string" where
  "template v = (case v of None \<Rightarrow> ''undefined'' | Some s \<Rightarrow> s)"

definition token_exchange :: "authorizer \<Rightarrow> string \<Rightarrow> token_request" where
  "token_exchange a code =
     \<lparr>token_url = ''https://api.twitter.com/2/oauth2/token'',
      http_method = ''POST'',
      headers =
        [(''Content-Type'', ''application/x-www-form-urlencoded''),
         (''Authorization'',
          ''Basic '' @ buffer_toString (utf8 (CLIENT_ID a @ '':'' @ template (CLIENT_SECRET a))) ''base64'')],
      form =
        [(''grant_type'', ''authorization_code''),
         (''code'', code),
         (''redirect_uri'', REDIRECT_URI),
         (''code_verifier'', codeVerifier a),
         (''client_id'', CLIENT_ID a)]\<rparr>"

text \<open>
  What the handler of the server does for one request, in order: the status and the
  body it answers with, the \<open>fetch\<close> of the token exchange, the lines it prints with the
  credentials, closing the server and leaving the process. \<open>Rejected\<close> is a \<open>fetch\<close> or a
  \<open>json()\<close> that rejects: the handler ends there.
\<close>

datatype reply = No_code_received | State_mismatch | Auth_successful

datatype effect =
    WriteHead nat
  | End reply
  | Fetch token_request
  | Rejected error
  | ConsoleError
  | ConsoleLog string
  | ServerClose
  | Exit nat

text \<open>\<open>url.searchParams.get(name)\<close>: the first value of the name, or \<open>null\<close>.\<close>

definition searchParams_get :: "(string \<times> string) list \<Rightarrow> string \<Rightarrow> string option" where
  "searchParams_get params name = map_of params name"

definition print_tokens :: "tokens \<Rightarrow> nat \<Rightarrow> effect list" where
  "print_tokens t now =
     [ConsoleLog (''export X_OAUTH2_ACCESS_TOKEN='' @ [CHR 0x22] @ access_token t @ [CHR 0x22])] @
     (if truthy (refresh_token t)
      then [ConsoleLog (''export X_OAUTH2_REFRESH_TOKEN='' @ [CHR 0x22] @
                        template (refresh_token t) @ [CHR 0x22])]
      else []) @
     [ConsoleLog (''export X_OAUTH2_TOKEN_EXPIRY='' @ [CHR 0x22] @
                  show_nat (now + expires_in t * 1000) @ [CHR 0x22])]"

text \<open>
  The handler: \<open>params\<close> are the search parameters of the request as
  \<open>new URL(req.url, "http://localhost:3000")\<close> parsed them (a request target that \<open>new URL\<close>
  refuses is outside the model), \<open>endpoint\<close> is the token endpoint of the provider,
  \<open>now\<close> is \<open>Date.now()\<close>.
\<close>

definition handler ::
  "authorizer \<Rightarrow> (token_request \<Rightarrow> error + tokens) \<Rightarrow> nat \<Rightarrow> (string \<times> string) list
     \<Rightarrow> effect list" where
  "handler a endpoint now params =
     (let code = searchParams_get params ''code'';
          returnedState = searchParams_get params ''state''
      in if \<not> truthy code then [WriteHead 400, End No_code_received]
         else if returnedState \<noteq> Some (state a) then [WriteHead 400, End State_mismatch]
         else
           [WriteHead 200, End Auth_successful, Fetch (token_exchange a (template code))] @
           (case endpoint (token_exchange a (template code)) of
              Inl e \<Rightarrow> [Rejected e]
            | Inr t \<Rightarrow>
                if truthy (error_field t) then [ConsoleError, ServerClose, Exit 1]
                else print_tokens t now @ [ServerClose, Exit 0]))"

text \<open>The token exchanges among the effects.\<close>

definition exchanges :: "effect list \<Rightarrow> token_request list" where
  "exchanges effects = concat (map (\<lambda>e. case e of Fetch r \<Rightarrow> [r] | _ \<Rightarrow> []) effects)"

section \<open>Sample runs\<close>

text \<open>
  A world for the default mode: a token and a user id in the environment, one bookmark
  id seen before, no alert list and no project document, and a bookmarks endpoint that
  answers with three bookmarks.
\<close>

definition sample_bookmarks :: "bookmark list" where
  "sample_bookmarks =
     [\<lparr>bm_id = ''1'', bm_text = ''Solana wallet'', created_at = ''2026-01-01T00:00:00.000Z''\<rparr>,
      \<lparr>bm_id = ''2'', bm_text = ''A new DeFi dex'', created_at = ''2026-01-02T00:00:00.000Z''\<rparr>,
      \<lparr>bm_id = ''3'', bm_text = ''cooking pasta'', created_at = ''2026-01-03T00:00:00.000Z''\<rparr>]"

definition sample_world :: world where
  "sample_world =
     \<lparr>argv = [],
      env = \<lparr>X_OAUTH2_ACCESS_TOKEN = Some ''tok'', X_USER_ID = Some ''42'', global_env = Missing\<rparr>,
      disk = \<lparr>seen_file = Content (JsonText (JArr [JStr ''1''])), alerts_file = Missing,
              projects_file = Missing, seen_writable = True, alerts_writable = True,
              written = []\<rparr>,
      users_api = (\<lambda>req. Inr \<lparr>status = 200, body_text = [], body_json = Some ''42''\<rparr>),
      bookmarks_api =
        (\<lambda>req. Inr \<lparr>status = 200, body_text = [], body_json = Some (Some sample_bookmarks)\<rparr>),
      clock = (\<lambda>k. ''2026-02-01T00:00:00.000Z'')\<rparr>"

text \<open>The same with the argument \<open>--clear\<close>.\<close>

definition clear_world :: world where
  "clear_world = sample_world\<lparr>argv := [''--clear'']\<rparr>"

text \<open>
  With \<open>--clear\<close> and \<open>--show\<close> together, over an alert file that holds one alert.
\<close>

definition saved_alert :: json where
  "saved_alert =
     JObj [(''id'', JStr ''7''),
           (''url'', JStr ''https://x.com/i/web/status/7''),
           (''text'', JStr ''Solana wallet''),
           (''relevance_score'', JNum 2),
           (''reason'', JStr ''Matches: solana''),
           (''project'', JStr ''Solana''),
           (''timestamp'', JStr ''2026-01-05T00:00:00.000Z'')]"

definition show_and_clear_world :: world where
  "show_and_clear_world =
     sample_world\<lparr>argv := [''--clear'', ''--show''],
                  disk := (disk sample_world)
                    \<lparr>alerts_file := Content (JsonText (JArr [saved_alert]))\<rparr>\<rparr>"

text \<open>
  With \<open>--clear\<close> over the same alert file, at a path that cannot be written (a file
  without write permission, say).
\<close>

definition unwritable_alerts_world :: world where
  "unwritable_alerts_world =
     sample_world\<lparr>argv := [''--clear''],
                  disk := (disk sample_world)
                    \<lparr>alerts_file := Content (JsonText (JArr [saved_alert])),
                     alerts_writable := False\<rparr>\<rparr>"


text \<open>The same with all three bookmark ids seen before.\<close>

definition all_seen_world :: world where
  "all_seen_world =
     sample_world\<lparr>disk := (disk sample_world)
       \<lparr>seen_file := Content (JsonText (JArr [JStr ''3'', JStr ''1'', JStr ''2'']))\<rparr>\<rparr>"

text \<open>The same with no user id in the environment.\<close>

definition no_user_id_world :: world where
  "no_user_id_world =
     sample_world\<lparr>env := \<lparr>X_OAUTH2_ACCESS_TOKEN = Some ''tok'', X_USER_ID = None,
                            global_env = Content ''X_CLIENT_ID=abc''\<rparr>\<rparr>"

text \<open>The same with a bookmarks endpoint that answers 401.\<close>

definition unauthorized_world :: world where
  "unauthorized_world =
     sample_world\<lparr>bookmarks_api :=
       (\<lambda>req. Inr \<lparr>status = 401, body_text = ''Unauthorized'', body_json = None\<rparr>)\<rparr>"

text \<open>
  The same with no bookmark seen before and an alert file that holds the JSON object
  \<open>{}\<close>.
\<close>

definition object_alerts_world :: world where
  "object_alerts_world =
     sample_world\<lparr>disk := \<lparr>seen_file = Missing, alerts_file = Content (JsonText (JObj [])),
                            projects_file = Missing, seen_writable = True, alerts_writable = True,
              written = []\<rparr>\<rparr>"

text \<open>
  A project document whose section repeats a word among its first ten, and one whose
  first ten words differ.
\<close>

definition repeating_document :: string where
  "repeating_document =
     ''## Proj'' @ [CHR 0x0A] @ ''aaaa aaaa bbbb cccc dddd eeee ffff gggg hhhh iiii jjjj kkkk''"

definition plain_document :: string where
  "plain_document =
     ''## Tool'' @ [CHR 0x0A] @
     ''With alpha, beta and gamma: delta epsilon zeta theta iota kappa lambda''"

text \<open>An authorizer after its start, and a token endpoint that grants.\<close>

definition sample_authorizer :: authorizer where
  "sample_authorizer =
     \<lparr>CLIENT_ID = ''client'', CLIENT_SECRET = Some ''secret'', codeVerifier = ''verifier'',
      state = ''0a1b''\<rparr>"

definition granting_endpoint :: "token_request \<Rightarrow> error + tokens" where
  "granting_endpoint r =
     Inr \<lparr>error_field = None, access_token = ''at'', refresh_token = Some ''rt'', expires_in = 2\<rparr>"

section \<open>Relevance scoring: the result is the maximum, owned by the first project reaching it\<close>

lemma scoreRelevance_step_score:
  "score (scoreRelevance_step txt best p) =
     max (score best) (bucket (length (matched_keywords txt (pk_keywords p))))"
  by (simp add: scoreRelevance_step_def bucket_def Let_def Suc_le_eq)

lemma best_at_step:
  assumes "best_at sc ps r"
      and "sc p = bucket (length (matched_keywords txt (pk_keywords p)))"
  shows "best_at sc (ps @ [p]) (scoreRelevance_step txt r p)"
proof (cases "score r < sc p")
  case True
  then have new: "scoreRelevance_step txt r p =
      \<lparr>score = sc p,
       reason = ''Matches '' @ project p @ '': '' @
                join '', '' (take 3 (matched_keywords txt (pk_keywords p))),
       matched_project = project p\<rparr>"
    using assms(2) by (auto simp: scoreRelevance_step_def bucket_def Let_def Suc_le_eq split: if_splits)
  have below: "list_all (\<lambda>q. sc q < sc p) ps"
    using assms(1) True by (auto simp: best_at_def list_all_iff)
  have "\<exists>i < length (ps @ [p]). sc ((ps @ [p]) ! i) = sc p \<and>
          project p = project ((ps @ [p]) ! i) \<and>
          list_all (\<lambda>q. sc q < sc p) (take i (ps @ [p]))"
    using below by (intro exI[of _ "length ps"]) simp
  moreover have "sc p \<noteq> 0" using True by simp
  ultimately show ?thesis
    using below unfolding new best_at_def by (auto simp: list_all_iff less_imp_le)
next
  case False
  then have keep: "scoreRelevance_step txt r p = r"
    using assms(2) by (auto simp: scoreRelevance_step_def bucket_def Let_def Suc_le_eq split: if_splits)
  have le: "sc p \<le> score r" using False by simp
  show ?thesis
  proof (cases "score r = 0")
    case True
    then show ?thesis
      using assms(1) le unfolding keep best_at_def by (simp add: list_all_iff)
  next
    case nz: False
    then obtain i where i: "i < length ps" "sc (ps ! i) = score r"
        "matched_project r = project (ps ! i)" "list_all (\<lambda>p. sc p < score r) (take i ps)"
      using assms(1) unfolding best_at_def by auto
    have "i < length (ps @ [p]) \<and> sc ((ps @ [p]) ! i) = score r \<and>
          matched_project r = project ((ps @ [p]) ! i) \<and>
          list_all (\<lambda>p. sc p < score r) (take i (ps @ [p]))"
      using i by (simp add: nth_append)
    then show ?thesis
      using assms(1) le nz unfolding keep best_at_def by (auto simp: list_all_iff)
  qed
qed

lemma best_at_foldl:
  assumes "\<And>p. sc p = bucket (length (matched_keywords txt (pk_keywords p)))"
  shows "best_at sc ps
           (foldl (scoreRelevance_step txt) \<lparr>score = 0, reason = '''', matched_project = ''''\<rparr> ps)"
proof (induction ps rule: rev_induct)
  case Nil
  show ?case by (simp add: best_at_def)
next
  case (snoc p ps)
  show ?case using best_at_step[OF snoc assms] by simp
qed

text \<open>
  C1 (as amended). For every bookmark text and every ordered project-keyword table,
  \<open>scoreRelevance\<close> lowercases the text and scores each project on its own by the number
  of its keywords that, lowercased as well, occur as substrings of the lowercased text:
  3 for three or more, 2 for one or two, 0 for none. The result carries the greatest
  project score and the first project of the table that reaches it; a result of score 0
  has the empty project label.
\<close>

theorem scoreRelevance_max_first:
  "best_at (\<lambda>p. bucket (lowercased_hits tweetText p)) projects (scoreRelevance tweetText projects)"
  unfolding scoreRelevance_def
  by (rule best_at_foldl) (simp add: lowercased_hits_def matched_keywords_def)

theorem scoreRelevance_max_first_witness:
  "best_at (\<lambda>p. bucket (lowercased_hits ''New Widget and gadget launch'' p))
     [\<lparr>project = ''other'', pk_keywords = [''rocket'']\<rparr>,
      \<lparr>project = ''proj'', pk_keywords = [''widget'', ''gadget'', ''gizmo'']\<rparr>,
      \<lparr>project = ''late'', pk_keywords = [''Launch'']\<rparr>]
     \<lparr>score = 2, reason = ''Matches proj: widget, gadget'', matched_project = ''proj''\<rparr>
   \<and> scoreRelevance ''New Widget and gadget launch''
       [\<lparr>project = ''other'', pk_keywords = [''rocket'']\<rparr>,
        \<lparr>project = ''proj'', pk_keywords = [''widget'', ''gadget'', ''gizmo'']\<rparr>,
        \<lparr>project = ''late'', pk_keywords = [''Launch'']\<rparr>]
       = \<lparr>score = 2, reason = ''Matches proj: widget, gadget'', matched_project = ''proj''\<rparr>"
proof -
  have run: "scoreRelevance ''New Widget and gadget launch''
       [\<lparr>project = ''other'', pk_keywords = [''rocket'']\<rparr>,
        \<lparr>project = ''proj'', pk_keywords = [''widget'', ''gadget'', ''gizmo'']\<rparr>,
        \<lparr>project = ''late'', pk_keywords = [''Launch'']\<rparr>]
       = \<lparr>score = 2, reason = ''Matches proj: widget, gadget'', matched_project = ''proj''\<rparr>"
    by code_simp
  show ?thesis
    using scoreRelevance_max_first
      [of "''New Widget and gadget launch''"
        "[\<lparr>project = ''other'', pk_keywords = [''rocket'']\<rparr>,
          \<lparr>project = ''proj'', pk_keywords = [''widget'', ''gadget'', ''gizmo'']\<rparr>,
          \<lparr>project = ''late'', pk_keywords = [''Launch'']\<rparr>]"]
    unfolding run by simp
qed

text \<open>
  The claim as it is written counts the keywords as the table spells them. The code
  lowercases each keyword before the test: the keyword \<open>ABC\<close> is no substring of the
  text \<open>abc\<close>, so the claim gives the project score 0 and no label, while
  \<open>scoreRelevance\<close> returns score 2 and the label \<open>P\<close>.
\<close>

theorem scoreRelevance_verbatim_counterexample:
  "score (scoreRelevance ''abc'' [\<lparr>project = ''P'', pk_keywords = [''ABC'']\<rparr>]) = 2
   \<and> matched_project (scoreRelevance ''abc'' [\<lparr>project = ''P'', pk_keywords = [''ABC'']\<rparr>]) = ''P''
   \<and> bucket (verbatim_hits ''abc'' \<lparr>project = ''P'', pk_keywords = [''ABC'']\<rparr>) = 0"
  by code_simp

section \<open>The PKCE challenge\<close>

lemma url_safe_alphabet: "map url_safe base64_alphabet = base64url_alphabet"
  by (simp add: base64_alphabet_def base64url_alphabet_def url_safe_def)

lemma length_base64_alphabet: "length base64_alphabet = 64"
  by (simp add: base64_alphabet_def)

lemma sextet_index: "unat (take_bit 6 (w :: 32 word)) < 64"
  using take_bit_nat_less_exp[of 6 "unat w"] by (simp add: unsigned_take_bit_eq)

lemma url_safe_nth: "url_safe (sextet base64_alphabet w k) = sextet base64url_alphabet w k"
  using nth_map[of "unat (take_bit 6 (drop_bit (6 * k) w))" base64_alphabet url_safe]
  by (simp add: sextet_def url_safe_alphabet length_base64_alphabet sextet_index)

lemma length_base64url_alphabet: "length base64url_alphabet = 64"
  by (simp add: base64url_alphabet_def)

lemma base64url_nth_no_pad: "sextet base64url_alphabet w k \<noteq> CHR ''=''"
proof -
  have "CHR ''='' \<notin> set base64url_alphabet" by (simp add: base64url_alphabet_def)
  moreover have "sextet base64url_alphabet w k \<in> set base64url_alphabet"
    unfolding sextet_def by (rule nth_mem) (simp only: length_base64url_alphabet sextet_index)
  ultimately show ?thesis by metis
qed

lemma url_safe_pad: "url_safe (CHR ''='') = CHR ''=''"
  by (simp add: url_safe_def)

lemma base64_groups_url:
  "alphabet = base64_alphabet \<Longrightarrow> pad = ''='' \<Longrightarrow>
   base64_groups base64url_alphabet '''' bytes =
   filter (\<lambda>c. c \<noteq> CHR ''='') (map url_safe (base64_groups alphabet pad bytes))"
  by (induction alphabet pad bytes rule: base64_groups.induct)
     (simp_all add: Let_def url_safe_nth base64url_nth_no_pad url_safe_pad)

text \<open>
  C5. For every verifier, the challenge \<open>generateCodeChallenge\<close> derives is the URL-safe
  base64 encoding without padding of the SHA-256 digest of the verifier. The derivation
  is a function of the verifier alone: it reads no random bytes and no state, so two
  computations on the same verifier give the same challenge.
\<close>

theorem generateCodeChallenge_is_S256:
  "generateCodeChallenge verifier = base64url_no_padding (sha256 (utf8 verifier))"
  by (simp add: generateCodeChallenge_def digest_def update_def createHash_def buffer_toString_def
      toString_base64url_def base64url_no_padding_def toString_base64_def base64_groups_url)

text \<open>The pair of RFC 7636, appendix B.\<close>

theorem generateCodeChallenge_is_S256_witness:
  "generateCodeChallenge ''dBjftJeZ4CVP-mB92K27uhbUJU1p1r_wW1gFWFOEjXk''
     = ''E9Melhoa2OwvFrEMTJguCHaoeK1t8URWbuGJSstw-cM''"
proof -
  have d: "sha256 (utf8 ''dBjftJeZ4CVP-mB92K27uhbUJU1p1r_wW1gFWFOEjXk'') =
    [0x13, 0xd3, 0x1e, 0x96, 0x1a, 0x1a, 0xd8, 0xec, 0x2f, 0x16, 0xb1, 0x0c, 0x4c, 0x98, 0x2e, 0x08,
     0x76, 0xa8, 0x78, 0xad, 0x6d, 0xf1, 0x44, 0x56, 0x6e, 0xe1, 0x89, 0x4a, 0xcb, 0x70, 0xf9, 0xc3]"
    by code_simp
  have e: "base64url_no_padding
    [0x13, 0xd3, 0x1e, 0x96, 0x1a, 0x1a, 0xd8, 0xec, 0x2f, 0x16, 0xb1, 0x0c, 0x4c, 0x98, 0x2e, 0x08,
     0x76, 0xa8, 0x78, 0xad, 0x6d, 0xf1, 0x44, 0x56, 0x6e, 0xe1, 0x89, 0x4a, 0xcb, 0x70, 0xf9, 0xc3]
     = ''E9Melhoa2OwvFrEMTJguCHaoeK1t8URWbuGJSstw-cM''"
    by code_simp
  show ?thesis
    using generateCodeChallenge_is_S256[of "''dBjftJeZ4CVP-mB92K27uhbUJU1p1r_wW1gFWFOEjXk''"]
    unfolding d e .
qed

section \<open>The callback of the authorizer\<close>

lemma exchanges_Nil: "exchanges [] = []"
  by (simp add: exchanges_def)

lemma exchanges_Cons:
  "exchanges (e # es) = (case e of Fetch r \<Rightarrow> [r] | _ \<Rightarrow> []) @ exchanges es"
  by (simp add: exchanges_def)

lemma exchanges_append: "exchanges (xs @ ys) = exchanges xs @ exchanges ys"
  by (simp add: exchanges_def)

lemma exchanges_print_tokens: "exchanges (print_tokens t now) = []"
  by (simp add: exchanges_def print_tokens_def del: show_nat.simps)

text \<open>
  C2. For every request the handler of the server receives: if the request has no code
  (none, or an empty one), or if its state is not the state nonce the authorizer drew,
  the handler answers with status 400 and does nothing else, so no token exchange is
  sent. A token exchange is sent only for a request with a code and with the state
  equal to the nonce, and then it is the one exchange of that code; every such request
  has its exchange.
\<close>

theorem no_exchange_without_code_and_state:
  "(\<not> truthy (searchParams_get params ''code'') \<or>
      searchParams_get params ''state'' \<noteq> Some (state a)
    \<longrightarrow> (\<exists>body. handler a endpoint now params = [WriteHead 400, End body]) \<and>
        exchanges (handler a endpoint now params) = []) \<and>
   (exchanges (handler a endpoint now params) \<noteq> []
    \<longrightarrow> (\<exists>code. searchParams_get params ''code'' = Some code \<and> code \<noteq> [] \<and>
                 exchanges (handler a endpoint now params) = [token_exchange a code]) \<and>
        searchParams_get params ''state'' = Some (state a)) \<and>
   (truthy (searchParams_get params ''code'') \<and>
      searchParams_get params ''state'' = Some (state a)
    \<longrightarrow> exchanges (handler a endpoint now params) \<noteq> [])"
proof (cases "truthy (searchParams_get params ''code'') \<and>
              searchParams_get params ''state'' = Some (state a)")
  case True
  then obtain code where c: "searchParams_get params ''code'' = Some code" "code \<noteq> []"
    by (auto simp: truthy_def split: option.splits)
  have "exchanges (handler a endpoint now params) = [token_exchange a code]"
    using True c
    by (simp add: handler_def Let_def exchanges_Nil exchanges_Cons exchanges_append
             exchanges_print_tokens template_def split: sum.splits)
  then show ?thesis using True c by simp
next
  case False
  then have "(\<exists>body. handler a endpoint now params = [WriteHead 400, End body]) \<and>
             exchanges (handler a endpoint now params) = []"
    by (auto simp: handler_def Let_def exchanges_def)
  then show ?thesis using False by auto
qed

theorem no_exchange_without_code_and_state_witness:
  "searchParams_get [(''code'', ''c0de''), (''state'', ''ffff'')] ''state''
     \<noteq> Some (state sample_authorizer) \<and>
   handler sample_authorizer granting_endpoint 5 [(''code'', ''c0de''), (''state'', ''ffff'')]
     = [WriteHead 400, End State_mismatch] \<and>
   handler sample_authorizer granting_endpoint 5 [(''state'', ''0a1b'')]
     = [WriteHead 400, End No_code_received] \<and>
   exchanges (handler sample_authorizer granting_endpoint 5
               [(''code'', ''c0de''), (''state'', ''ffff'')]) = [] \<and>
   exchanges (handler sample_authorizer granting_endpoint 5
               [(''code'', ''c0de''), (''state'', ''0a1b'')])
     = [token_exchange sample_authorizer ''c0de'']"
proof -
  have h: "searchParams_get [(''code'', ''c0de''), (''state'', ''ffff'')] ''state''
             \<noteq> Some (state sample_authorizer)" by code_simp
  have r1: "handler sample_authorizer granting_endpoint 5
              [(''code'', ''c0de''), (''state'', ''ffff'')] = [WriteHead 400, End State_mismatch]"
    by code_simp
  have r2: "handler sample_authorizer granting_endpoint 5 [(''state'', ''0a1b'')]
              = [WriteHead 400, End No_code_received]"
    by code_simp
  have c: "searchParams_get [(''code'', ''c0de''), (''state'', ''0a1b'')] ''code'' = Some ''c0de''"
    by code_simp
  have n: "exchanges (handler sample_authorizer granting_endpoint 5
                       [(''code'', ''c0de''), (''state'', ''0a1b'')]) \<noteq> []"
    by (simp add: handler_def Let_def searchParams_get_def truthy_def sample_authorizer_def
        granting_endpoint_def exchanges_Cons)
  have x1: "exchanges (handler sample_authorizer granting_endpoint 5
                        [(''code'', ''c0de''), (''state'', ''ffff'')]) = []"
    using no_exchange_without_code_and_state
      [of "[(''code'', ''c0de''), (''state'', ''ffff'')]" sample_authorizer granting_endpoint 5] h
    by simp
  have x2: "exchanges (handler sample_authorizer granting_endpoint 5
                        [(''code'', ''c0de''), (''state'', ''0a1b'')])
              = [token_exchange sample_authorizer ''c0de'']"
    using no_exchange_without_code_and_state
      [of "[(''code'', ''c0de''), (''state'', ''0a1b'')]" sample_authorizer granting_endpoint 5] n c
    by simp
  show ?thesis using h r1 r2 x1 x2 by simp
qed

section \<open>The seen-set and the files\<close>

lemma set_foldl_set_add: "set (foldl set_add acc vs) = set acc \<union> set vs"
  by (induction vs arbitrary: acc) (auto simp: set_add_def set_has_def)

lemma set_new_Set: "set (new_Set vs) = set vs"
  by (simp add: new_Set_def set_foldl_set_add)



lemma set_has_JStr: "set_has s (JStr x) = (JStr x \<in> set s)"
  by (simp add: set_has_def is_primitive_def)

lemma set_set_add: "set (set_add s v) = insert v (set s)"
  by (auto simp: set_add_def set_has_def)

lemma loadSeen_saved: "loadSeen (Content (JSON_stringify (JArr s))) = new_Set s"
  by (simp add: loadSeen_def loadSeen_try_def existsSync_def readFileSync_def JSON_parse_def
      JSON_stringify_def)

lemma ingest_loop_array:
  "alerts st = JArr xs \<Longrightarrow>
   \<exists>st' ys. ingest_loop clk ps new st = (st', None) \<and> alerts st' = JArr ys"
proof (induction new arbitrary: st xs)
  case Nil
  then show ?case by simp
next
  case (Cons bm bms)
  show ?case
  proof (cases "2 \<le> score (scoreRelevance (bm_text bm) ps)")
    case True
    let ?st1 = "st\<lparr>seen := set_add (seen st) (JStr (bm_id bm)),
                     scored_so_far := scored_so_far st @ [bm]\<rparr>"
    let ?a = "alert_of bm (scoreRelevance (bm_text bm) ps) (clk (alertCount st))"
    let ?st2 = "?st1\<lparr>alerts := JArr (xs @ [?a]), alertCount := Suc (alertCount st)\<rparr>"
    have "alerts ?st2 = JArr (xs @ [?a])" by simp
    from Cons.IH[OF this] obtain st' ys where
      "ingest_loop clk ps bms ?st2 = (st', None)" "alerts st' = JArr ys" by blast
    then show ?thesis using True Cons.prems by (simp add: Let_def push_def)
  next
    case False
    let ?st1 = "st\<lparr>seen := set_add (seen st) (JStr (bm_id bm)),
                     scored_so_far := scored_so_far st @ [bm]\<rparr>"
    have "alerts ?st1 = JArr xs" using Cons.prems by simp
    from Cons.IH[OF this] obtain st' ys where
      "ingest_loop clk ps bms ?st1 = (st', None)" "alerts st' = JArr ys" by blast
    then show ?thesis using False by (simp add: Let_def)
  qed
qed

lemma ingest_loop_done:
  "ingest_loop clk ps new st = (st', None) \<Longrightarrow>
   set (seen st') = set (seen st) \<union> JStr ` bm_id ` set new \<and>
   scored_so_far st' = scored_so_far st @ new"
proof (induction new arbitrary: st)
  case Nil
  then show ?case by simp
next
  case (Cons bm bms)
  let ?st1 = "st\<lparr>seen := set_add (seen st) (JStr (bm_id bm)),
                   scored_so_far := scored_so_far st @ [bm]\<rparr>"
  show ?case
  proof (cases "2 \<le> score (scoreRelevance (bm_text bm) ps)")
    case True
    then obtain pushed where p: "push (alerts ?st1)
        (alert_of bm (scoreRelevance (bm_text bm) ps) (clk (alertCount ?st1))) = Inr pushed"
      and run: "ingest_loop clk ps bms (?st1\<lparr>alerts := pushed, alertCount := Suc (alertCount ?st1)\<rparr>)
                = (st', None)"
      using Cons.prems by (auto simp: Let_def split: sum.splits)
    from Cons.IH[OF run] show ?thesis by (auto simp: set_set_add)
  next
    case False
    then have "ingest_loop clk ps bms ?st1 = (st', None)"
      using Cons.prems by (simp add: Let_def)
    from Cons.IH[OF this] show ?thesis by (auto simp: set_set_add)
  qed
qed

lemma length_newBookmarks:
  "length (newBookmarks s bs) = length bs - length (filter (\<lambda>b. set_has s (JStr (bm_id b))) bs)"
proof -
  have "length (filter (\<lambda>b. set_has s (JStr (bm_id b))) bs) +
        length (filter (\<lambda>b. \<not> set_has s (JStr (bm_id b))) bs) = length bs"
    by (rule sum_length_filter_compl)
  then show ?thesis by (simp add: newBookmarks_def)
qed

lemma ingest_loop_run:
  assumes "loadAlerts (alerts_file (disk w)) = JArr xs"
  shows "\<exists>st'. ingest_loop (clock w) (extractProjectKeywords (projects_file (disk w)))
                 (newBookmarks (loadSeen (seen_file (disk w))) bookmarks)
                 \<lparr>seen = loadSeen (seen_file (disk w)),
                  alerts = loadAlerts (alerts_file (disk w)), alertCount = 0,
                  scored_so_far = []\<rparr> = (st', None) \<and>
               set (seen st') =
                 set (loadSeen (seen_file (disk w))) \<union> JStr ` bm_id ` set bookmarks \<and>
               scored_so_far st' = newBookmarks (loadSeen (seen_file (disk w))) bookmarks"
proof -
  let ?s0 = "loadSeen (seen_file (disk w))"
  let ?new = "newBookmarks ?s0 bookmarks"
  let ?st0 = "\<lparr>seen = ?s0, alerts = loadAlerts (alerts_file (disk w)), alertCount = 0,
               scored_so_far = []\<rparr>"
  have "alerts ?st0 = JArr xs" using assms by simp
  from ingest_loop_array[OF this] obtain st' ys where
    run: "ingest_loop (clock w) (extractProjectKeywords (projects_file (disk w))) ?new ?st0
            = (st', None)" by blast
  from ingest_loop_done[OF run] have
    s: "set (seen st') = set ?s0 \<union> JStr ` bm_id ` set ?new" and sc: "scored_so_far st' = ?new"
    by simp_all
  have "set ?s0 \<union> JStr ` bm_id ` set ?new = set ?s0 \<union> JStr ` bm_id ` set bookmarks"
    by (auto simp: newBookmarks_def set_has_JStr)
  then show ?thesis using run s sc by simp
qed

lemma ingest_marks_all_seen:
  assumes "loadAlerts (alerts_file (disk w)) = JArr xs"
      and "seen_writable (disk w)" and "alerts_writable (disk w)"
  shows "exit_code (ingest w sent bookmarks) = 0 \<and>
         thrown (ingest w sent bookmarks) = None \<and>
         set (loadSeen (seen_file (disk_after (ingest w sent bookmarks)))) =
           set (loadSeen (seen_file (disk w))) \<union> JStr ` bm_id ` set bookmarks \<and>
         scored (ingest w sent bookmarks) = newBookmarks (loadSeen (seen_file (disk w))) bookmarks"
proof (cases "newBookmarks (loadSeen (seen_file (disk w))) bookmarks = []")
  case True
  then have "JStr ` bm_id ` set bookmarks \<subseteq> set (loadSeen (seen_file (disk w)))"
    by (auto simp: newBookmarks_def filter_empty_conv set_has_JStr)
  then show ?thesis using True by (auto simp: ingest_def)
next
  case False
  from ingest_loop_run[OF assms(1), of bookmarks] obtain st' where
    run: "ingest_loop (clock w) (extractProjectKeywords (projects_file (disk w)))
            (newBookmarks (loadSeen (seen_file (disk w))) bookmarks)
            \<lparr>seen = loadSeen (seen_file (disk w)),
             alerts = loadAlerts (alerts_file (disk w)), alertCount = 0,
             scored_so_far = []\<rparr> = (st', None)"
    and s: "set (seen st') =
              set (loadSeen (seen_file (disk w))) \<union> JStr ` bm_id ` set bookmarks"
    and sc: "scored_so_far st' = newBookmarks (loadSeen (seen_file (disk w))) bookmarks"
    by blast
  show ?thesis
    using False run s sc assms(2,3)
    by (simp add: ingest_def Let_def saveSeen_def saveAlerts_def loadSeen_saved set_new_Set)
qed





text \<open>
  C8. For every state of the files, a run with \<open>--clear\<close> leaves the seen file and the
  project document as they were and sends no request. The script tests \<open>--show\<close>
  first. Without \<open>--show\<close>, where the alert file can be written, the run writes the
  empty list to it and nothing else, and ends with exit code 0; where it cannot be
  written, nothing catches what \<open>saveAlerts\<close> throws: the run ends with exit code 1 and
  all files are as before. With \<open>--show\<close> among the arguments the script shows the
  alerts and writes nothing.
\<close>

theorem clear_empties_alerts_only:
  assumes "''--clear'' \<in> set (argv w)"
  shows "seen_file (disk_after (main w)) = seen_file (disk w) \<and>
         projects_file (disk_after (main w)) = projects_file (disk w) \<and>
         requests (main w) = [] \<and>
         (''--show'' \<notin> set (argv w) \<and> alerts_writable (disk w) \<longrightarrow>
            exit_code (main w) = 0 \<and>
            alerts_file (disk_after (main w)) = Content (JSON_stringify (JArr [])) \<and>
            loadAlerts (alerts_file (disk_after (main w))) = JArr [] \<and>
            written (disk_after (main w)) = written (disk w) @ [ALERTS_FILE]) \<and>
         (''--show'' \<notin> set (argv w) \<and> \<not> alerts_writable (disk w) \<longrightarrow>
            exit_code (main w) = 1 \<and> thrown (main w) = Some FsError \<and>
            disk_after (main w) = disk w) \<and>
         (''--show'' \<in> set (argv w) \<longrightarrow>
            disk_after (main w) = disk w \<and>
            exit_code (main w) =
              (case show_alerts (loadAlerts (alerts_file (disk w))) of
                 None \<Rightarrow> 0 | Some e \<Rightarrow> 1))"
  using assms
  by (simp add: main_def saveAlerts_def loadAlerts_def loadAlerts_try_def existsSync_def
      readFileSync_def JSON_parse_def JSON_stringify_def split: option.splits)

theorem clear_empties_alerts_only_witness:
  "''--clear'' \<in> set (argv clear_world) \<and> ''--show'' \<notin> set (argv clear_world) \<and>
   alerts_writable (disk clear_world) \<and>
   exit_code (main clear_world) = 0 \<and>
   alerts_file (disk_after (main clear_world)) = Content (JsonText (JArr [])) \<and>
   seen_file (disk_after (main clear_world)) = Content (JsonText (JArr [JStr ''1''])) \<and>
   written (disk_after (main clear_world)) = [ALERTS_FILE] \<and>
   ''--clear'' \<in> set (argv unwritable_alerts_world) \<and>
   ''--show'' \<notin> set (argv unwritable_alerts_world) \<and>
   \<not> alerts_writable (disk unwritable_alerts_world) \<and>
   exit_code (main unwritable_alerts_world) = 1 \<and>
   ''--clear'' \<in> set (argv show_and_clear_world) \<and>
   ''--show'' \<in> set (argv show_and_clear_world) \<and>
   disk_after (main show_and_clear_world) = disk show_and_clear_world"
proof -
  have h1: "''--clear'' \<in> set (argv clear_world)" by code_simp
  have h2: "''--show'' \<notin> set (argv clear_world)" by code_simp
  have h3: "alerts_writable (disk clear_world)" by code_simp
  have d: "seen_file (disk clear_world) = Content (JsonText (JArr [JStr ''1''])) \<and>
           written (disk clear_world) = []" by code_simp
  have u1: "''--clear'' \<in> set (argv unwritable_alerts_world)" by code_simp
  have u2: "''--show'' \<notin> set (argv unwritable_alerts_world)" by code_simp
  have u3: "\<not> alerts_writable (disk unwritable_alerts_world)" by code_simp
  have s1: "''--clear'' \<in> set (argv show_and_clear_world)" by code_simp
  have s2: "''--show'' \<in> set (argv show_and_clear_world)" by code_simp
  show ?thesis
    using clear_empties_alerts_only[OF h1] clear_empties_alerts_only[OF u1]
      clear_empties_alerts_only[OF s1] h1 h2 h3 d u1 u2 u3 s1 s2
    by (simp add: JSON_stringify_def)
qed

text \<open>
  The claim says that every run with \<open>--clear\<close> replaces the alert list with the empty
  list and ends with exit code 0. In the first run below \<open>--show\<close> is given as well: the
  one alert of the file is shown, the run ends with exit code 0 and the alert is still
  there. In the second the alert file cannot be written: the run ends with exit code 1
  and the alert is still there.
\<close>

theorem clear_keeps_alerts_counterexample:
  "''--clear'' \<in> set (argv show_and_clear_world) \<and>
   loadAlerts (alerts_file (disk show_and_clear_world)) = JArr [saved_alert] \<and>
   exit_code (main show_and_clear_world) = 0 \<and>
   thrown (main show_and_clear_world) = None \<and>
   written (disk_after (main show_and_clear_world)) = [] \<and>
   loadAlerts (alerts_file (disk_after (main show_and_clear_world))) = JArr [saved_alert] \<and>
   loadAlerts (alerts_file (disk_after (main show_and_clear_world))) \<noteq> JArr [] \<and>
   ''--clear'' \<in> set (argv unwritable_alerts_world) \<and>
   ''--show'' \<notin> set (argv unwritable_alerts_world) \<and>
   loadAlerts (alerts_file (disk unwritable_alerts_world)) = JArr [saved_alert] \<and>
   exit_code (main unwritable_alerts_world) = 1 \<and>
   thrown (main unwritable_alerts_world) = Some FsError \<and>
   loadAlerts (alerts_file (disk_after (main unwritable_alerts_world))) = JArr [saved_alert]"
  by code_simp

text \<open>
  C10. For every run of the default mode with a token whose fetch succeeds and returns
  only bookmarks whose ids are in the loaded seen-set, the run exits with code 0 before
  anything is scored, and it writes no file: the files are as they were.
\<close>

theorem nothing_new_leaves_files:
  assumes "''--show'' \<notin> set (argv w)" and "''--clear'' \<notin> set (argv w)"
      and "getOAuth2Token (env w) = Some token" and "token \<noteq> []"
      and "fetch_phase w token = (sent, Inr bookmarks)"
      and "list_all (\<lambda>b. set_has (loadSeen (seen_file (disk w))) (JStr (bm_id b))) bookmarks"
  shows "exit_code (main w) = 0 \<and> disk_after (main w) = disk w \<and>
         written (disk_after (main w)) = written (disk w) \<and>
         scored (main w) = [] \<and> thrown (main w) = None"
proof -
  have "newBookmarks (loadSeen (seen_file (disk w))) bookmarks = []"
    using assms(6) by (simp add: newBookmarks_def list_all_iff)
  then show ?thesis
    using assms(1-5) by (simp add: main_def ingest_def)
qed

theorem nothing_new_leaves_files_witness:
  "''--show'' \<notin> set (argv all_seen_world) \<and> ''--clear'' \<notin> set (argv all_seen_world) \<and>
   getOAuth2Token (env all_seen_world) = Some ''tok'' \<and>
   fetch_phase all_seen_world ''tok'' =
     ([\<lparr>url = bookmarks_url ''42'', authorization = ''Bearer tok''\<rparr>], Inr sample_bookmarks) \<and>
   list_all (\<lambda>b. set_has (loadSeen (seen_file (disk all_seen_world))) (JStr (bm_id b)))
     sample_bookmarks \<and>
   exit_code (main all_seen_world) = 0 \<and>
   disk_after (main all_seen_world) = disk all_seen_world \<and>
   scored (main all_seen_world) = []"
proof -
  have h1: "''--show'' \<notin> set (argv all_seen_world)" by code_simp
  have h2: "''--clear'' \<notin> set (argv all_seen_world)" by code_simp
  have h3: "getOAuth2Token (env all_seen_world) = Some ''tok''" by code_simp
  have h4: "''tok'' \<noteq> []" by simp
  have h5: "fetch_phase all_seen_world ''tok'' =
     ([\<lparr>url = bookmarks_url ''42'', authorization = ''Bearer tok''\<rparr>], Inr sample_bookmarks)"
    by code_simp
  have h6: "list_all (\<lambda>b. set_has (loadSeen (seen_file (disk all_seen_world))) (JStr (bm_id b)))
     sample_bookmarks" by code_simp
  show ?thesis
    using nothing_new_leaves_files[OF h1 h2 h3 h4 h5 h6] h1 h2 h3 h5 h6 by simp
qed

text \<open>
  C9. Whenever \<open>getUserId\<close> finds no user id in the environment (none, or an empty
  one), a run of the default mode starts with a request to the user lookup for the
  fixed name \<open>frankdegods\<close>: the address of the request is the same for every token, and
  the token is only sent as the bearer credential. The id the lookup answers with is
  the one whose bookmarks are fetched next.
\<close>

theorem lookup_uses_fixed_username:
  assumes "''--show'' \<notin> set (argv w)" and "''--clear'' \<notin> set (argv w)"
      and "getOAuth2Token (env w) = Some token" and "token \<noteq> []"
      and "\<not> truthy (getUserId (env w))"
  shows "lookup_url = ''https://api.x.com/2/users/by/username/frankdegods?user.fields=id'' \<and>
         resolve_user w token = lookupUserId (users_api w) token \<and>
         (\<exists>rest. requests (main w) =
            \<lparr>url = lookup_url, authorization = ''Bearer '' @ token\<rparr> # rest) \<and>
         (\<forall>res data_id.
            users_api w \<lparr>url = lookup_url, authorization = ''Bearer '' @ token\<rparr> = Inr res \<and>
            ok res \<and> body_json res = Some data_id
            \<longrightarrow> requests (main w) =
                  [\<lparr>url = lookup_url, authorization = ''Bearer '' @ token\<rparr>,
                   \<lparr>url = bookmarks_url data_id, authorization = ''Bearer '' @ token\<rparr>])"
proof -
  let ?req = "\<lparr>url = lookup_url, authorization = ''Bearer '' @ token\<rparr>"
  have r: "resolve_user w token = lookupUserId (users_api w) token"
    using assms(5) by (simp add: resolve_user_def truthy_def split: option.splits)
  have f: "fst (lookupUserId (users_api w) token) = [?req]"
    by (simp add: lookupUserId_def Let_def)
  obtain res where l: "lookupUserId (users_api w) token = ([?req], res)"
    using f by (cases "lookupUserId (users_api w) token") simp
  have first: "\<exists>rest. requests (main w) = ?req # rest"
    using assms(1-4)
    by (cases res)
       (auto simp: main_def fetch_phase_def r l ingest_def Let_def fetchBookmarks_def
             split: prod.splits sum.splits option.splits)
  have next_one: "requests (main w) =
      [?req, \<lparr>url = bookmarks_url data_id, authorization = ''Bearer '' @ token\<rparr>]"
    if "users_api w ?req = Inr res'" and "ok res'" and "body_json res' = Some data_id"
    for res' data_id
  proof -
    have "lookupUserId (users_api w) token = ([?req], Inr data_id)"
      using that by (simp add: lookupUserId_def Let_def)
    then show ?thesis
      using assms(1-4)
      by (auto simp: main_def fetch_phase_def r ingest_def Let_def fetchBookmarks_def
               split: prod.splits sum.splits option.splits)
  qed
  show ?thesis using r first next_one by (simp add: lookup_url_def)
qed

theorem lookup_uses_fixed_username_witness:
  "''--show'' \<notin> set (argv no_user_id_world) \<and> ''--clear'' \<notin> set (argv no_user_id_world) \<and>
   getOAuth2Token (env no_user_id_world) = Some ''tok'' \<and>
   \<not> truthy (getUserId (env no_user_id_world)) \<and>
   requests (main no_user_id_world) =
     [\<lparr>url = ''https://api.x.com/2/users/by/username/frankdegods?user.fields=id'',
       authorization = ''Bearer tok''\<rparr>,
      \<lparr>url = bookmarks_url ''42'', authorization = ''Bearer tok''\<rparr>]"
proof -
  have h1: "''--show'' \<notin> set (argv no_user_id_world)" by code_simp
  have h2: "''--clear'' \<notin> set (argv no_user_id_world)" by code_simp
  have h3: "getOAuth2Token (env no_user_id_world) = Some ''tok''" by code_simp
  have h4: "''tok'' \<noteq> []" by simp
  have h5: "\<not> truthy (getUserId (env no_user_id_world))" by code_simp
  have a: "users_api no_user_id_world \<lparr>url = lookup_url, authorization = ''Bearer '' @ ''tok''\<rparr>
             = Inr \<lparr>status = 200, body_text = [], body_json = Some ''42''\<rparr>"
    by (simp add: no_user_id_world_def sample_world_def)
  have b: "ok \<lparr>status = 200, body_text = [], body_json = Some ''42''\<rparr>"
    by (simp add: ok_def)
  have "requests (main no_user_id_world) =
          [\<lparr>url = lookup_url, authorization = ''Bearer '' @ ''tok''\<rparr>,
           \<lparr>url = bookmarks_url ''42'', authorization = ''Bearer '' @ ''tok''\<rparr>]"
    using lookup_uses_fixed_username[OF h1 h2 h3 h4 h5] a b by simp
  then show ?thesis using h1 h2 h3 h5 by (simp add: lookup_url_def)
qed

section \<open>Fetching the bookmarks\<close>

text \<open>
  C7. For every response to the bookmarks request whose status is outside 200 to 299,
  \<open>fetchBookmarks\<close> throws after that one request: with the status 401 the message says
  that the authentication failed and to run the authorizer again, with any other status
  it is the generic message with the status and the body. The run ends with exit code
  1, having sent no further request and written no file.
\<close>

theorem fetchBookmarks_non_2xx_is_fatal:
  assumes "''--show'' \<notin> set (argv w)" and "''--clear'' \<notin> set (argv w)"
      and "getOAuth2Token (env w) = Some token" and "token \<noteq> []"
      and "resolve_user w token = (sent, Inr userId)"
      and "bookmarks_api w \<lparr>url = bookmarks_url userId, authorization = ''Bearer '' @ token\<rparr> = Inr res"
      and "\<not> ok res"
  shows "fetchBookmarks (bookmarks_api w) token userId =
           ([\<lparr>url = bookmarks_url userId, authorization = ''Bearer '' @ token\<rparr>],
            Inl (Error (if status res = 401
                        then ''Auth failed (401). Your OAuth2 token may be expired.'' @ [CHR 0x0A] @
                             ''Run: bun run scripts/auth/get-bookmark-token.ts to refresh.''
                        else ''Bookmarks API error: '' @ show_nat (status res) @ '' '' @ body_text res))) \<and>
         exit_code (main w) = 1 \<and>
         thrown (main w) = Some (Error (if status res = 401
                        then ''Auth failed (401). Your OAuth2 token may be expired.'' @ [CHR 0x0A] @
                             ''Run: bun run scripts/auth/get-bookmark-token.ts to refresh.''
                        else ''Bookmarks API error: '' @ show_nat (status res) @ '' '' @ body_text res)) \<and>
         requests (main w) = sent @ [\<lparr>url = bookmarks_url userId, authorization = ''Bearer '' @ token\<rparr>] \<and>
         disk_after (main w) = disk w"
proof -
  have n: "show_nat 401 = ''401''" by simp
  have f: "fetchBookmarks (bookmarks_api w) token userId =
           ([\<lparr>url = bookmarks_url userId, authorization = ''Bearer '' @ token\<rparr>],
            Inl (Error (if status res = 401
                        then ''Auth failed (401). Your OAuth2 token may be expired.'' @ [CHR 0x0A] @
                             ''Run: bun run scripts/auth/get-bookmark-token.ts to refresh.''
                        else ''Bookmarks API error: '' @ show_nat (status res) @ '' '' @ body_text res)))"
    using assms(6,7) by (simp add: fetchBookmarks_def Let_def auth_failed_message_def n del: show_nat.simps)
  show ?thesis
    using assms(1-5) by (simp add: main_def fetch_phase_def f del: show_nat.simps)
qed

theorem fetchBookmarks_non_2xx_is_fatal_witness:
  "''--show'' \<notin> set (argv unauthorized_world) \<and> ''--clear'' \<notin> set (argv unauthorized_world) \<and>
   getOAuth2Token (env unauthorized_world) = Some ''tok'' \<and>
   resolve_user unauthorized_world ''tok'' = ([], Inr ''42'') \<and>
   \<not> ok \<lparr>status = 401, body_text = ''Unauthorized'', body_json = None :: bookmark list option option\<rparr> \<and>
   exit_code (main unauthorized_world) = 1 \<and>
   thrown (main unauthorized_world) =
     Some (Error (''Auth failed (401). Your OAuth2 token may be expired.'' @ [CHR 0x0A] @
                  ''Run: bun run scripts/auth/get-bookmark-token.ts to refresh.'')) \<and>
   requests (main unauthorized_world) =
     [\<lparr>url = bookmarks_url ''42'', authorization = ''Bearer tok''\<rparr>] \<and>
   disk_after (main unauthorized_world) = disk unauthorized_world"
proof -
  have h1: "''--show'' \<notin> set (argv unauthorized_world)" by code_simp
  have h2: "''--clear'' \<notin> set (argv unauthorized_world)" by code_simp
  have h3: "getOAuth2Token (env unauthorized_world) = Some ''tok''" by code_simp
  have h4: "''tok'' \<noteq> []" by simp
  have h5: "resolve_user unauthorized_world ''tok'' = ([], Inr ''42'')" by code_simp
  have h6: "bookmarks_api unauthorized_world
              \<lparr>url = bookmarks_url ''42'', authorization = ''Bearer '' @ ''tok''\<rparr>
            = Inr \<lparr>status = 401, body_text = ''Unauthorized'', body_json = None\<rparr>"
    by (simp add: unauthorized_world_def)
  have h7: "\<not> ok \<lparr>status = 401, body_text = ''Unauthorized'',
                     body_json = None :: bookmark list option option\<rparr>"
    by (simp add: ok_def)
  show ?thesis
    using fetchBookmarks_non_2xx_is_fatal[OF h1 h2 h3 h4 h5 h6 h7] h1 h2 h3 h5 h7 by simp
qed

section \<open>Marking the fetched bookmarks as seen\<close>

text \<open>
  Where the alert list loads as an array and both files can be written, a run of the
  default mode whose fetch returns the bookmarks ends with exit code 0; the seen-set it
  leaves is the one it loaded together with the ids of all fetched bookmarks; the
  bookmarks scored are the fetched ones whose id was not in the loaded set, in their
  order: as many as were fetched less those already seen.
\<close>

lemma ingest_run_marks_all_seen:
  assumes "''--show'' \<notin> set (argv w)" and "''--clear'' \<notin> set (argv w)"
      and "getOAuth2Token (env w) = Some token" and "token \<noteq> []"
      and "fetch_phase w token = (sent, Inr bookmarks)"
      and "loadAlerts (alerts_file (disk w)) = JArr xs"
      and "seen_writable (disk w)" and "alerts_writable (disk w)"
  shows "exit_code (main w) = 0 \<and>
         set (loadSeen (seen_file (disk_after (main w)))) =
           set (loadSeen (seen_file (disk w))) \<union> JStr ` bm_id ` set bookmarks \<and>
         scored (main w) = newBookmarks (loadSeen (seen_file (disk w))) bookmarks \<and>
         length (scored (main w)) =
           length bookmarks -
           length (filter (\<lambda>b. set_has (loadSeen (seen_file (disk w))) (JStr (bm_id b))) bookmarks)"
proof -
  have m: "main w = ingest w sent bookmarks"
    using assms(1-5) by (simp add: main_def)
  show ?thesis
    unfolding m using ingest_marks_all_seen[OF assms(6-8), of sent bookmarks]
    by (simp add: length_newBookmarks)
qed

text \<open>
  C3. The claim: after every run of the default mode the seen-set is the one before
  together with the ids of all fetched bookmarks, and all unseen bookmarks are scored.
  \<open>loadAlerts\<close> returns whatever JSON value the alert file holds, where \<open>loadSeen\<close>
  keeps arrays only. In the run below the alert file holds the object \<open>{}\<close>, nothing was
  seen before and three bookmarks are fetched: the first one is relevant,
  \<open>alerts.push\<close> throws a \<open>TypeError\<close>, and the run ends with exit code 1 before
  \<open>saveSeen\<close>. One bookmark of three was scored, and the seen-set is empty as before.
\<close>

theorem ingest_aborts_on_object_alerts:
  "''--show'' \<notin> set (argv object_alerts_world) \<and>
   ''--clear'' \<notin> set (argv object_alerts_world) \<and>
   getOAuth2Token (env object_alerts_world) = Some ''tok'' \<and>
   fetch_phase object_alerts_world ''tok'' =
     ([\<lparr>url = bookmarks_url ''42'', authorization = ''Bearer tok''\<rparr>], Inr sample_bookmarks) \<and>
   loadSeen (seen_file (disk object_alerts_world)) = [] \<and>
   loadAlerts (alerts_file (disk object_alerts_world)) = JObj [] \<and>
   exit_code (main object_alerts_world) = 1 \<and>
   thrown (main object_alerts_world) = Some TypeError \<and>
   scored (main object_alerts_world) = take 1 sample_bookmarks \<and>
   disk_after (main object_alerts_world) = disk object_alerts_world \<and>
   loadSeen (seen_file (disk_after (main object_alerts_world))) = []"
  by code_simp

section \<open>The keywords of a project section\<close>

lemma regex_words_shape:
  "w \<in> set (regex_words b s) \<Longrightarrow> 4 \<le> length w \<and> list_all is_lower_az w"
proof (induction b s rule: regex_words.induct)
  case (1 after_word)
  then show ?case by simp
next
  case (2 after_word c cs)
  show ?case
  proof (cases "\<not> after_word \<and> 4 \<le> length (takeWhile is_lower_az (c # cs)) \<and>
         (case dropWhile is_lower_az (c # cs) of [] \<Rightarrow> True | d # _ \<Rightarrow> \<not> is_word_char d)")
    case True
    have "regex_words after_word (c # cs) =
          takeWhile is_lower_az (c # cs) # regex_words True (dropWhile is_lower_az (c # cs))"
      by (subst regex_words.simps(2)) (rule if_P, rule True)
    then have "w = takeWhile is_lower_az (c # cs) \<or>
               w \<in> set (regex_words True (dropWhile is_lower_az (c # cs)))"
      using "2.prems" by (simp del: takeWhile.simps dropWhile.simps regex_words.simps)
    then show ?thesis
    proof
      assume "w = takeWhile is_lower_az (c # cs)"
      then show ?thesis using True by (auto simp: list_all_iff dest: set_takeWhileD)
    next
      assume "w \<in> set (regex_words True (dropWhile is_lower_az (c # cs)))"
      then show ?thesis using "2.IH"(1)[OF True] by simp
    qed
  next
    case False
    have "regex_words after_word (c # cs) = regex_words (is_word_char c) cs"
      by (subst regex_words.simps(2)) (rule if_not_P, rule False)
    then have "w \<in> set (regex_words (is_word_char c) cs)"
      using "2.prems" by (simp del: regex_words.simps)
    then show ?thesis using "2.IH"(2)[OF False] by simp
  qed
qed

lemma uniq_foldl:
  "distinct acc \<Longrightarrow>
   distinct (foldl (\<lambda>acc x. if x \<in> set acc then acc else acc @ [x]) acc xs) \<and>
   set (foldl (\<lambda>acc x. if x \<in> set acc then acc else acc @ [x]) acc xs) = set acc \<union> set xs \<and>
   length (foldl (\<lambda>acc x. if x \<in> set acc then acc else acc @ [x]) acc xs)
     \<le> length acc + length xs"
proof (induction xs arbitrary: acc)
  case Nil
  then show ?case by simp
next
  case (Cons x xs)
  show ?case
  proof (cases "x \<in> set acc")
    case True
    then show ?thesis using Cons.IH[OF Cons.prems] by auto
  next
    case False
    then have "distinct (acc @ [x])" using Cons.prems by simp
    from Cons.IH[OF this] show ?thesis using False by auto
  qed
qed

lemma uniq_foldl_distinct:
  "distinct (acc @ xs) \<Longrightarrow>
   foldl (\<lambda>acc x. if x \<in> set acc then acc else acc @ [x]) acc xs = acc @ xs"
proof (induction xs arbitrary: acc)
  case Nil
  then show ?case by simp
next
  case (Cons x xs)
  then have "distinct ((acc @ [x]) @ xs)" and "x \<notin> set acc" by auto
  then show ?case using Cons.IH[of "acc @ [x]"] by simp
qed

lemma distinct_uniq: "distinct (uniq xs)"
  and set_uniq: "set (uniq xs) = set xs"
  and length_uniq: "length (uniq xs) \<le> length xs"
  using uniq_foldl[of "[]" xs] by (simp_all add: uniq_def)

lemma uniq_distinct: "distinct xs \<Longrightarrow> uniq xs = xs"
  using uniq_foldl_distinct[of "[]" xs] by (simp add: uniq_def)

lemma eligible_words_shape:
  "w \<in> set (eligible_words sec) \<Longrightarrow>
   4 \<le> length w \<and> list_all is_lower_az w \<and> w \<notin> set stopWords"
  using regex_words_shape[of w False "toLowerCase sec"] by (simp add: eligible_words_def)

lemma pk_keywords_extract:
  "pk_keywords (extract_project content m) = uniq (take 10 (eligible_words (section_of content m)))"
  by (simp add: extract_project_def section_keywords_def section_words_def)

lemma uniq_take_shape:
  "list_all (\<lambda>k. 4 \<le> length k \<and> list_all is_lower_az k \<and> k \<notin> set stopWords)
     (uniq (take 10 (eligible_words sec)))"
proof (rule iffD2[OF list_all_iff], rule ballI)
  fix k
  assume "k \<in> set (uniq (take 10 (eligible_words sec)))"
  then have "k \<in> set (take 10 (eligible_words sec))" by (simp only: set_uniq)
  then have "k \<in> set (eligible_words sec)" by (rule in_set_takeD)
  then show "4 \<le> length k \<and> list_all is_lower_az k \<and> k \<notin> set stopWords"
    by (rule eligible_words_shape)
qed

lemma uniq_take_length: "length (uniq (take 10 xs)) \<le> 10"
  using length_uniq[of "take 10 xs"] by simp

lemma uniq_take_full:
  "10 \<le> length xs \<Longrightarrow> distinct (take 10 xs) \<Longrightarrow> length (uniq (take 10 xs)) = 10"
  by (simp add: uniq_distinct)

text \<open>
  C4 (as amended). For every project document and every header match of it, the
  keywords of the project are words of the letters \<open>a\<close> to \<open>z\<close>, four letters long at
  least, none of them a stop word; they are distinct and at most 10. They are the
  distinct words among the first 10 words of the section that qualify: when these 10
  words differ from one another, exactly 10 keywords are kept.
\<close>

theorem extracted_keywords_bounded:
  "list_all (\<lambda>k. 4 \<le> length k \<and> list_all is_lower_az k \<and> k \<notin> set stopWords)
     (pk_keywords (extract_project content m)) \<and>
   distinct (pk_keywords (extract_project content m)) \<and>
   length (pk_keywords (extract_project content m)) \<le> 10 \<and>
   pk_keywords (extract_project content m) =
     uniq (take 10 (eligible_words (section_of content m))) \<and>
   (10 \<le> length (eligible_words (section_of content m)) \<and>
    distinct (take 10 (eligible_words (section_of content m)))
    \<longrightarrow> length (pk_keywords (extract_project content m)) = 10)"
  unfolding pk_keywords_extract
  using uniq_take_shape[of "section_of content m"]
        distinct_uniq[of "take 10 (eligible_words (section_of content m))"]
        uniq_take_length[of "eligible_words (section_of content m)"]
        uniq_take_full[of "eligible_words (section_of content m)"]
  by (intro conjI impI) (simp_all only: simp_thms)

theorem extracted_keywords_bounded_witness:
  "header_matches plain_document = [''## Tool''] \<and>
   10 \<le> length (eligible_words (section_of plain_document ''## Tool'')) \<and>
   distinct (take 10 (eligible_words (section_of plain_document ''## Tool''))) \<and>
   length (pk_keywords (extract_project plain_document ''## Tool'')) = 10 \<and>
   pk_keywords (extract_project plain_document ''## Tool'') =
     [''tool'', ''alpha'', ''beta'', ''gamma'', ''delta'', ''epsilon'', ''zeta'', ''theta'', ''iota'',
      ''kappa'']"
proof -
  have h0: "header_matches plain_document = [''## Tool'']" by code_simp
  have h1: "10 \<le> length (eligible_words (section_of plain_document ''## Tool''))" by code_simp
  have h2: "distinct (take 10 (eligible_words (section_of plain_document ''## Tool'')))"
    by code_simp
  have e: "uniq (take 10 (eligible_words (section_of plain_document ''## Tool''))) =
     [''tool'', ''alpha'', ''beta'', ''gamma'', ''delta'', ''epsilon'', ''zeta'', ''theta'', ''iota'',
      ''kappa'']" by code_simp
  show ?thesis
    using extracted_keywords_bounded[of plain_document "''## Tool''"] h0 h1 h2 e by simp
qed

text \<open>
  The claim as it is written promises exactly 10 keywords for every section with more
  than 10 distinct words that qualify. The script cuts the list to its first 10 words
  before it removes duplicates: the section below has 12 distinct words that qualify,
  one of its first 10 is a repetition, and 9 keywords are kept.
\<close>

theorem extracted_keywords_counterexample:
  "header_matches repeating_document = [''## Proj''] \<and>
   10 < length (remdups (eligible_words (section_of repeating_document ''## Proj''))) \<and>
   length (pk_keywords (extract_project repeating_document ''## Proj'')) = 9 \<and>
   extractProjectKeywords (Content repeating_document) =
     [\<lparr>project = ''Proj'',
       pk_keywords = [''proj'', ''aaaa'', ''bbbb'', ''cccc'', ''dddd'', ''eeee'', ''ffff'', ''gggg'',
                      ''hhhh'']\<rparr>]"
  by code_simp

end
